theory Spec2Isabelle
  imports Complex_Main
begin

section \<open>The notebook's formulas in exact arithmetic\<close>

text \<open>
  The notebook \<^verbatim>\<open>2_FloatingPointPrecision.ipynb\<close> contrasts what its formulas give in
  binary64 arithmetic with what they give in exact arithmetic. This section reads the
  formulas of Examples 2, 3 and 4 over the reals, operator by operator; the next sections
  read the same cells in binary64.
\<close>

subsection \<open>Example 2: \<^verbatim>\<open>y = 1. + delta * sqrt(2)\<close>, \<^verbatim>\<open>res = (1./delta)*(y-x)\<close>\<close>

definition x_real :: real where
  "x_real = 1"

definition y_real :: "real \<Rightarrow> real" where
  "y_real delta = 1 + delta * sqrt 2"

definition res_real :: "real \<Rightarrow> real" where
  "res_real delta = (1 / delta) * (y_real delta - x_real)"

subsection \<open>Example 3: the two forms of the quadratic roots\<close>

text \<open>
  Cell 9: \<^verbatim>\<open>x1 = (-b + sqrt(b*b - 4.*a*c)) / (2.*a)\<close> and
  \<^verbatim>\<open>x2 = (-b - sqrt(b*b - 4.*a*c)) / (2.*a)\<close>.
\<close>

definition x1_standard_real :: "real \<Rightarrow> real \<Rightarrow> real \<Rightarrow> real" where
  "x1_standard_real a b c = (- b + sqrt (b * b - 4 * a * c)) / (2 * a)"

definition x2_standard_real :: "real \<Rightarrow> real \<Rightarrow> real \<Rightarrow> real" where
  "x2_standard_real a b c = (- b - sqrt (b * b - 4 * a * c)) / (2 * a)"

text \<open>
  Cell 11: \<^verbatim>\<open>x1 = 2*c / (-b - sqrt(b*b-4.*a*c))\<close> and
  \<^verbatim>\<open>x2 = 2*c / (-b + sqrt(b*b-4.*a*c))\<close>.
\<close>

definition x1_alternate_real :: "real \<Rightarrow> real \<Rightarrow> real \<Rightarrow> real" where
  "x1_alternate_real a b c = 2 * c / (- b - sqrt (b * b - 4 * a * c))"

definition x2_alternate_real :: "real \<Rightarrow> real \<Rightarrow> real \<Rightarrow> real" where
  "x2_alternate_real a b c = 2 * c / (- b + sqrt (b * b - 4 * a * c))"

subsection \<open>Example 4: \<^verbatim>\<open>f\<close>, \<^verbatim>\<open>df_exact\<close>, \<^verbatim>\<open>df_numeric\<close>\<close>

definition f_real :: "real \<Rightarrow> real" where
  "f_real x = x * (x - 1)"

definition df_exact_real :: "real \<Rightarrow> real" where
  "df_exact_real x = 2 * x - 1"

definition df_numeric_real :: "real \<Rightarrow> real \<Rightarrow> real" where
  "df_numeric_real x h = (f_real (x + h) - f_real x) / h"

section \<open>Python numbers in the notebook: errors and binary64 arithmetic\<close>

text \<open>
  Python evaluates the notebook with two kinds of numbers: unbounded integers and
  binary64 floats (IEEE 754 double precision, round to nearest, ties to even). A finite
  float is modelled by the rational number it denotes, so \<open>FloatV q\<close> is only ever built
  from a \<open>q\<close> that binary64 represents; \<open>-0.0\<close> and \<open>0.0\<close> are both \<open>FloatV 0\<close>, and they
  compare equal in Python too.

  An exception is a value \<open>Inl e\<close>. \<open>Outside_model\<close> is not a Python exception: it marks the
  two places where the model does not follow Python, a float result that is not finite
  (Python goes on with \<open>inf\<close> or \<open>nan\<close>, or raises \<open>OverflowError\<close>) and a power whose
  operands are not both integers. A run that ends in \<open>Inr\<close> has met neither.
\<close>

datatype py_error =
    NameError string
  | TypeError
  | AttributeError
  | ZeroDivisionError
  | ValueError
  | Outside_model

type_synonym 'a result = "py_error + 'a"

definition and_then :: "'a result \<Rightarrow> ('a \<Rightarrow> 'b result) \<Rightarrow> 'b result" where
  "and_then r k = (case r of Inl e \<Rightarrow> Inl e | Inr v \<Rightarrow> k v)"

subsection \<open>Rounding to binary64\<close>

text \<open>Round to the nearest integer, a tie going to the even one.\<close>

definition round_half_even :: "rat \<Rightarrow> int" where
  "round_half_even q =
     (let n = \<lfloor>q\<rfloor>; r = q - of_int n
      in if r < 1 / 2 then n
         else if 1 / 2 < r then n + 1
         else if even n then n else n + 1)"

text \<open>The number of binary digits of a positive integer (\<^verbatim>\<open>int.bit_length\<close>).\<close>

function bit_length :: "int \<Rightarrow> int" where
  "bit_length n = (if n < 1 then 0 else 1 + bit_length (n div 2))"
  by pat_completeness auto
termination
  by (relation "measure nat") auto

declare bit_length.simps [simp del]

text \<open>For \<open>q > 0\<close>, the exponent \<open>e\<close> with \<open>2\<^sup>e \<le> q < 2\<^sup>e\<^sup>+\<^sup>1\<close>.\<close>

definition ilog2 :: "rat \<Rightarrow> int" where
  "ilog2 q = (if 1 \<le> q then bit_length \<lfloor>q\<rfloor> - 1 else - bit_length (\<lceil>1 / q\<rceil> - 1))"

text \<open>
  The binary64 value nearest to \<open>q\<close>: 53 significant bits, so the last place of a number
  in \<open>[2\<^sup>e, 2\<^sup>e\<^sup>+\<^sup>1)\<close> is \<open>2\<^sup>e\<^sup>-\<^sup>5\<^sup>2\<close>, but never below \<open>2\<^sup>-\<^sup>1\<^sup>0\<^sup>7\<^sup>4\<close> (subnormal
  numbers); a result of magnitude \<open>2\<^sup>1\<^sup>0\<^sup>2\<^sup>4\<close> or more is not finite.
\<close>

definition fp_round :: "rat \<Rightarrow> rat result" where
  "fp_round q =
     (if q = 0 then Inr 0
      else let u = max (ilog2 \<bar>q\<bar> - 52) (- 1074);
               r = sgn q * of_int (round_half_even (\<bar>q\<bar> / 2 powi u)) * 2 powi u
           in if \<bar>r\<bar> < 2 powi 1024 then Inr r else Inl Outside_model)"

text \<open>The integer square root, two bits at a time.\<close>

function isqrt :: "int \<Rightarrow> int" where
  "isqrt n =
     (if n < 1 then 0
      else let r = 2 * isqrt (n div 4)
           in if (r + 1) * (r + 1) \<le> n then r + 1 else r)"
  by pat_completeness auto
termination
  by (relation "measure nat") auto

declare isqrt.simps [simp del]

text \<open>
  The binary64 value nearest to \<open>\<surd>q\<close> (\<^verbatim>\<open>math.sqrt\<close> is the C library's correctly rounded
  square root; a negative argument is a \<^verbatim>\<open>ValueError\<close>). With \<open>h = ilog2 q div 2\<close>, that is
  \<open>4\<^sup>h \<le> q < 4\<^sup>h\<^sup>+\<^sup>1\<close>, the root lies in \<open>[2\<^sup>h, 2\<^sup>h\<^sup>+\<^sup>1)\<close> and its last place is \<open>2\<^sup>u\<close> for
  \<open>u = h - 52\<close>. The 53-bit significand is the integer nearest to \<open>\<surd>t\<close> for \<open>t = q / 4\<^sup>u\<close>:
  \<open>n = \<lfloor>\<surd>t\<rfloor>\<close> or \<open>n + 1\<close>, decided by comparing \<open>t\<close> with \<open>(n + 1/2)\<^sup>2\<close>. The argument is a
  binary64 number, at least \<open>2\<^sup>-\<^sup>1\<^sup>0\<^sup>7\<^sup>4\<close> when positive, so the root is neither subnormal nor
  too large.
\<close>

definition fp_sqrt :: "rat \<Rightarrow> rat result" where
  "fp_sqrt q =
     (if q < 0 then Inl ValueError
      else if q = 0 then Inr 0
      else let u = ilog2 q div 2 - 52;
               t = q / 2 powi (2 * u);
               n = isqrt \<lfloor>t\<rfloor>;
               m = (of_int n + 1 / 2) * (of_int n + 1 / 2)
           in Inr (of_int (if t < m then n
                           else if m < t then n + 1
                           else if even n then n else n + 1) * 2 powi u))"

subsection \<open>Numbers and their operators\<close>

datatype number = IntV int | FloatV rat

definition val :: "number \<Rightarrow> rat" where
  "val v = (case v of IntV n \<Rightarrow> of_int n | FloatV q \<Rightarrow> q)"

definition to_float :: "number \<Rightarrow> rat result" where
  "to_float v = (case v of IntV n \<Rightarrow> fp_round (of_int n) | FloatV q \<Rightarrow> Inr q)"

definition rounded :: "rat \<Rightarrow> number result" where
  "rounded q = and_then (fp_round q) (\<lambda>r. Inr (FloatV r))"

text \<open>
  A binary operator on two integers is exact; with a float operand both operands become
  floats and the exact result is rounded.
\<close>

definition float_op :: "(rat \<Rightarrow> rat \<Rightarrow> rat) \<Rightarrow> number \<Rightarrow> number \<Rightarrow> number result" where
  "float_op h v w = and_then (to_float v) (\<lambda>a. and_then (to_float w) (\<lambda>b. rounded (h a b)))"

fun py_add :: "number \<Rightarrow> number \<Rightarrow> number result" where
  "py_add (IntV a) (IntV b) = Inr (IntV (a + b))"
| "py_add v w = float_op (+) v w"

fun py_sub :: "number \<Rightarrow> number \<Rightarrow> number result" where
  "py_sub (IntV a) (IntV b) = Inr (IntV (a - b))"
| "py_sub v w = float_op (-) v w"

fun py_mul :: "number \<Rightarrow> number \<Rightarrow> number result" where
  "py_mul (IntV a) (IntV b) = Inr (IntV (a * b))"
| "py_mul v w = float_op (*) v w"

text \<open>\<^verbatim>\<open>/\<close> is true division: the result is a float, a zero divisor raises.\<close>

fun py_truediv :: "number \<Rightarrow> number \<Rightarrow> number result" where
  "py_truediv (IntV a) (IntV b) =
     (if b = 0 then Inl ZeroDivisionError else rounded (of_int a / of_int b))"
| "py_truediv v w =
     and_then (to_float v) (\<lambda>a. and_then (to_float w) (\<lambda>b.
       if b = 0 then Inl ZeroDivisionError else rounded (a / b)))"

fun py_neg :: "number \<Rightarrow> number" where
  "py_neg (IntV a) = IntV (- a)"
| "py_neg (FloatV q) = FloatV (- q)"

fun py_abs :: "number \<Rightarrow> number" where
  "py_abs (IntV a) = IntV \<bar>a\<bar>"
| "py_abs (FloatV q) = FloatV \<bar>q\<bar>"

text \<open>
  \<^verbatim>\<open>**\<close> on two integers: an integer for an exponent \<open>\<ge> 0\<close>; for a negative exponent
  Python converts both to float and calls the C library's \<^verbatim>\<open>pow\<close>, taken here to return
  the binary64 value nearest to the exact power. The notebook's recorded output agrees:
  it prints \<^verbatim>\<open>h\<close> as \<^verbatim>\<open>0.1\<close>, \<^verbatim>\<open>0.01\<close>, ..., \<^verbatim>\<open>1e-19\<close>, and Python prints a float as the
  shortest decimal that reads back to it.
\<close>

fun py_pow :: "number \<Rightarrow> number \<Rightarrow> number result" where
  "py_pow (IntV a) (IntV n) =
     (if 0 \<le> n then Inr (IntV (a ^ nat n))
      else if a = 0 then Inl ZeroDivisionError
      else and_then (fp_round (of_int a)) (\<lambda>x. rounded (x powi n)))"
| "py_pow v w = Inl Outside_model"

definition math_sqrt :: "number \<Rightarrow> number result" where
  "math_sqrt v = and_then (to_float v) (\<lambda>a. and_then (fp_sqrt a) (\<lambda>r. Inr (FloatV r)))"

text \<open>\<^verbatim>\<open>range(start, stop, step)\<close> as the list it runs through.\<close>

definition range_length :: "int \<Rightarrow> int \<Rightarrow> int \<Rightarrow> int" where
  "range_length lo hi step =
     (if 0 < step \<and> lo < hi then 1 + (hi - 1 - lo) div step
      else if step < 0 \<and> hi < lo then 1 + (lo - 1 - hi) div (- step)
      else 0)"

definition py_range :: "int \<Rightarrow> int \<Rightarrow> int \<Rightarrow> int list result" where
  "py_range start stop step =
     (if step = 0 then Inl ValueError
      else Inr (map (\<lambda>k. start + int k * step) [0 ..< nat (range_length start stop step)]))"

section \<open>The notebook as a script\<close>

text \<open>
  The notebook's code cells run in order in one Python process: they share the global
  namespace, a dictionary from names to objects, and add to the printed output. A cell is
  modelled as a function from this state to the new state, or to the exception that stops
  it.
\<close>

datatype py_obj =
    Number number
  | List "number list"
  | Sqrt_function
  | User_function string
  | Opaque

type_synonym env = "string \<rightharpoonup> py_obj"

text \<open>
  \<^verbatim>\<open>print\<close> writes one line; the model keeps its arguments (a text or a number) and leaves
  out how \<^verbatim>\<open>print\<close> and \<^verbatim>\<open>format\<close> lay them out. The scatter plot of the last cell is
  kept as its two lists.
\<close>

datatype item = Str string | Val number

datatype out = Line "item list" | Scatter "number list" "number list"

record state =
  globals :: env
  printed :: "out list"

subsection \<open>Expressions\<close>

type_synonym expr = "env \<Rightarrow> number result"

definition int_lit :: "int \<Rightarrow> expr" where
  "int_lit n = (\<lambda>g. Inr (IntV n))"

text \<open>A float literal denotes the binary64 value nearest to its decimal value.\<close>

definition float_lit :: "rat \<Rightarrow> expr" where
  "float_lit q = (\<lambda>g. rounded q)"

text \<open>
  The notebook uses a name in an expression only as a number, as an operand or as a printed
  value; a name bound to another object is a \<^verbatim>\<open>TypeError\<close> there.
\<close>

definition var :: "string \<Rightarrow> expr" where
  "var x = (\<lambda>g. case g x of
               None \<Rightarrow> Inl (NameError x)
             | Some (Number v) \<Rightarrow> Inr v
             | Some _ \<Rightarrow> Inl TypeError)"

text \<open>Operands are evaluated from left to right; the first exception wins.\<close>

definition binop :: "(number \<Rightarrow> number \<Rightarrow> number result) \<Rightarrow> expr \<Rightarrow> expr \<Rightarrow> expr" where
  "binop h e1 e2 = (\<lambda>g. and_then (e1 g) (\<lambda>v. and_then (e2 g) (\<lambda>w. h v w)))"

definition unop :: "(number \<Rightarrow> number) \<Rightarrow> expr \<Rightarrow> expr" where
  "unop h e = (\<lambda>g. and_then (e g) (\<lambda>v. Inr (h v)))"

type_synonym cond = "env \<Rightarrow> bool result"

text \<open>\<^verbatim>\<open>==\<close> and \<^verbatim>\<open><\<close> compare the exact values, also between an integer and a float.\<close>

definition compare :: "(rat \<Rightarrow> rat \<Rightarrow> bool) \<Rightarrow> expr \<Rightarrow> expr \<Rightarrow> cond" where
  "compare p e1 e2 = (\<lambda>g. and_then (e1 g) (\<lambda>v. and_then (e2 g) (\<lambda>w. Inr (p (val v) (val w)))))"

fun eval_args :: "expr list \<Rightarrow> env \<Rightarrow> number list result" where
  "eval_args [] g = Inr []"
| "eval_args (e # es) g = and_then (e g) (\<lambda>v. and_then (eval_args es g) (\<lambda>vs. Inr (v # vs)))"

subsection \<open>The functions of Example 4\<close>

text \<open>
  \<^verbatim>\<open>def f(x): return x*(x-1.)\<close>, \<^verbatim>\<open>def df_exact(x): return 2.*x - 1.\<close> and
  \<^verbatim>\<open>def df_numeric(x,h): return (f(x+h) - f(x)) / h\<close>. A body is evaluated with its
  parameters as the only names; the call of \<^verbatim>\<open>f\<close> inside \<^verbatim>\<open>df_numeric\<close> is the call of the
  \<^verbatim>\<open>f\<close> defined two lines above it, which no cell rebinds.
\<close>

definition call_def :: "(number \<Rightarrow> number result) \<Rightarrow> expr \<Rightarrow> expr" where
  "call_def h e = (\<lambda>g. and_then (e g) h)"

definition f :: "number \<Rightarrow> number result" where
  "f x = binop py_mul (var ''x'') (binop py_sub (var ''x'') (float_lit 1)) [''x'' \<mapsto> Number x]"

definition df_exact :: "number \<Rightarrow> number result" where
  "df_exact x =
     binop py_sub (binop py_mul (float_lit 2) (var ''x'')) (float_lit 1) [''x'' \<mapsto> Number x]"

definition df_numeric :: "number \<Rightarrow> number \<Rightarrow> number result" where
  "df_numeric x h =
     binop py_truediv
       (binop py_sub (call_def f (binop py_add (var ''x'') (var ''h''))) (call_def f (var ''x'')))
       (var ''h'')
       [''x'' \<mapsto> Number x, ''h'' \<mapsto> Number h]"

text \<open>
  A call at the top level of a cell looks the name up in the global namespace when it is
  made: an unbound name is a \<^verbatim>\<open>NameError\<close>, an object that is not such a function (or is
  given the wrong number of arguments) a \<^verbatim>\<open>TypeError\<close>.
\<close>

fun apply_obj :: "py_obj \<Rightarrow> number list \<Rightarrow> number result" where
  "apply_obj Sqrt_function [v] = math_sqrt v"
| "apply_obj (User_function name) [v] =
     (if name = ''f'' then f v
      else if name = ''df_exact'' then df_exact v
      else Inl TypeError)"
| "apply_obj (User_function name) [v, w] =
     (if name = ''df_numeric'' then df_numeric v w else Inl TypeError)"
| "apply_obj obj vs = Inl TypeError"

definition call :: "string \<Rightarrow> expr list \<Rightarrow> expr" where
  "call name es = (\<lambda>g. case g name of
       None \<Rightarrow> Inl (NameError name)
     | Some obj \<Rightarrow> and_then (eval_args es g) (apply_obj obj))"

subsection \<open>Statements\<close>

type_synonym stmt = "state \<Rightarrow> state result"

text \<open>
  Binding a name to an object: what \<^verbatim>\<open>from math import sqrt\<close>, \<^verbatim>\<open>def f(x): ...\<close> and
  \<^verbatim>\<open>arr_h = []\<close> do. An assignment binds the name to the value of its right-hand side.
\<close>

definition bind_name :: "string \<Rightarrow> py_obj \<Rightarrow> stmt" where
  "bind_name x obj = (\<lambda>s. Inr (s\<lparr>globals := (globals s)(x \<mapsto> obj)\<rparr>))"

definition assign :: "string \<Rightarrow> expr \<Rightarrow> stmt" where
  "assign x e = (\<lambda>s. and_then (e (globals s)) (\<lambda>v. bind_name x (Number v) s))"

definition append_to :: "string \<Rightarrow> expr \<Rightarrow> stmt" where
  "append_to x e = (\<lambda>s. case globals s x of
       None \<Rightarrow> Inl (NameError x)
     | Some (List vs) \<Rightarrow> and_then (e (globals s)) (\<lambda>v. bind_name x (List (vs @ [v])) s)
     | Some _ \<Rightarrow> Inl AttributeError)"

type_synonym item_expr = "env \<Rightarrow> item result"

definition text_item :: "string \<Rightarrow> item_expr" where
  "text_item t = (\<lambda>g. Inr (Str t))"

definition value_item :: "expr \<Rightarrow> item_expr" where
  "value_item e = (\<lambda>g. and_then (e g) (\<lambda>v. Inr (Val v)))"

fun eval_items :: "item_expr list \<Rightarrow> env \<Rightarrow> item list result" where
  "eval_items [] g = Inr []"
| "eval_items (e # es) g = and_then (e g) (\<lambda>v. and_then (eval_items es g) (\<lambda>vs. Inr (v # vs)))"

definition print_line :: "item_expr list \<Rightarrow> stmt" where
  "print_line es = (\<lambda>s. and_then (eval_items es (globals s))
                          (\<lambda>its. Inr (s\<lparr>printed := printed s @ [Line its]\<rparr>)))"

fun block :: "stmt list \<Rightarrow> stmt" where
  "block [] s = Inr s"
| "block (c # cs) s = and_then (c s) (block cs)"

definition if_else :: "cond \<Rightarrow> stmt list \<Rightarrow> stmt list \<Rightarrow> stmt" where
  "if_else b cs ds = (\<lambda>s. and_then (b (globals s)) (\<lambda>t. if t then block cs s else block ds s))"

text \<open>A \<^verbatim>\<open>for\<close> loop binds the loop variable and runs the body, once for each element.\<close>

fun iterate :: "string \<Rightarrow> int list \<Rightarrow> stmt list \<Rightarrow> stmt" where
  "iterate x [] body s = Inr s"
| "iterate x (k # ks) body s =
     and_then (bind_name x (Number (IntV k)) s) (\<lambda>s1.
     and_then (block body s1) (iterate x ks body))"

definition for_range :: "string \<Rightarrow> int \<Rightarrow> int \<Rightarrow> int \<Rightarrow> stmt list \<Rightarrow> stmt" where
  "for_range x start stop step body =
     (\<lambda>s. and_then (py_range start stop step) (\<lambda>ks. iterate x ks body s))"

text \<open>
  \<^verbatim>\<open>plt.scatter(arr_h, arr_err, ...)\<close>: the two names are read and their lists plotted; what
  the plotting library does with them is not modelled.
\<close>

definition scatter_plot :: "string \<Rightarrow> string \<Rightarrow> stmt" where
  "scatter_plot x y = (\<lambda>s. case globals s x of
       None \<Rightarrow> Inl (NameError x)
     | Some (List xs) \<Rightarrow>
         (case globals s y of
            None \<Rightarrow> Inl (NameError y)
          | Some (List ys) \<Rightarrow> Inr (s\<lparr>printed := printed s @ [Scatter xs ys]\<rparr>)
          | Some _ \<Rightarrow> Inl TypeError)
     | Some _ \<Rightarrow> Inl TypeError)"

subsection \<open>The code cells\<close>

text \<open>
  Example 1, first cell:
  \<^verbatim>\<open>x = 1.1 + 2.2\<close>, \<^verbatim>\<open>print("x = ",x)\<close>, \<^verbatim>\<open>print(3.3)\<close>,
  \<^verbatim>\<open>if (x == 3.3): print("x == 3.3 is True") else: print("x == 3.3 is False")\<close>.
\<close>

definition exact_test :: cond where
  "exact_test = compare (=) (var ''x'') (float_lit (33 / 10))"

definition example1_test :: stmt where
  "example1_test = block
     [assign ''x'' (binop py_add (float_lit (11 / 10)) (float_lit (22 / 10))),
      print_line [text_item ''x = '', value_item (var ''x'')],
      print_line [value_item (float_lit (33 / 10))],
      if_else exact_test
        [print_line [text_item ''x == 3.3 is True'']]
        [print_line [text_item ''x == 3.3 is False'']]]"

text \<open>
  Example 1, second cell:
  \<^verbatim>\<open>print("x = ",x)\<close>, \<^verbatim>\<open>eps = 1.e-12\<close>,
  \<^verbatim>\<open>if (abs(x-3.3) < eps): print("x == 3.3 to a precision of",eps,"is True")\<close>
  \<^verbatim>\<open>else: print("x == 3.3 to a precision of",eps,"is False")\<close>.
\<close>

definition tolerant_test :: cond where
  "tolerant_test =
     compare (<) (unop py_abs (binop py_sub (var ''x'') (float_lit (33 / 10)))) (var ''eps'')"

definition example1_eps :: stmt where
  "example1_eps = block
     [print_line [text_item ''x = '', value_item (var ''x'')],
      assign ''eps'' (float_lit (1 / 10 ^ 12)),
      if_else tolerant_test
        [print_line [text_item ''x == 3.3 to a precision of'', value_item (var ''eps''),
                     text_item ''is True'']]
        [print_line [text_item ''x == 3.3 to a precision of'', value_item (var ''eps''),
                     text_item ''is False'']]]"

text \<open>
  Example 2:
  \<^verbatim>\<open>from math import sqrt\<close>, \<^verbatim>\<open>delta = 1.e-14\<close>, \<^verbatim>\<open>x = 1.\<close>,
  \<^verbatim>\<open>y = 1. + delta * sqrt(2)\<close>, two prints, \<^verbatim>\<open>res = (1./delta)*(y-x)\<close>, and the prints of
  \<^verbatim>\<open>res\<close>, \<^verbatim>\<open>sqrt(2)\<close> and \<^verbatim>\<open>res - sqrt(2)\<close>.
\<close>

definition example2 :: stmt where
  "example2 = block
     [bind_name ''sqrt'' Sqrt_function,
      assign ''delta'' (float_lit (1 / 10 ^ 14)),
      assign ''x'' (float_lit 1),
      assign ''y'' (binop py_add (float_lit 1)
                      (binop py_mul (var ''delta'') (call ''sqrt'' [int_lit 2]))),
      print_line [text_item ''x = '', value_item (var ''x'')],
      print_line [text_item ''y = '', value_item (var ''y'')],
      assign ''res'' (binop py_mul (binop py_truediv (float_lit 1) (var ''delta''))
                                   (binop py_sub (var ''y'') (var ''x''))),
      print_line [text_item ''(1/delta) * (y-x) = '', value_item (var ''res'')],
      print_line [text_item ''The accurate value is sqrt(2) = '',
                  value_item (call ''sqrt'' [int_lit 2])],
      print_line [text_item ''The difference is '',
                  value_item (binop py_sub (var ''res'') (call ''sqrt'' [int_lit 2]))]]"

text \<open>
  Example 3. Both cells compute \<^verbatim>\<open>sqrt(b*b - 4.*a*c)\<close>; the first one has
  \<^verbatim>\<open>a = 1.e-4\<close>, \<^verbatim>\<open>b = 1.e4\<close>, \<^verbatim>\<open>c = 1.e-4\<close>,
  \<^verbatim>\<open>x1 = (-b + sqrt(b*b - 4.*a*c)) / (2.*a)\<close>, \<^verbatim>\<open>x2 = (-b - sqrt(b*b - 4.*a*c)) / (2.*a)\<close>
  and the second one
  \<^verbatim>\<open>x1 = 2*c / (-b - sqrt(b*b-4.*a*c))\<close>, \<^verbatim>\<open>x2 = 2*c / (-b + sqrt(b*b-4.*a*c))\<close>;
  each prints \<^verbatim>\<open>x1\<close> and \<^verbatim>\<open>x2\<close>.
\<close>

definition root_of_discriminant :: expr where
  "root_of_discriminant =
     call ''sqrt'' [binop py_sub (binop py_mul (var ''b'') (var ''b''))
                                 (binop py_mul (binop py_mul (float_lit 4) (var ''a'')) (var ''c''))]"

text \<open>The denominators \<^verbatim>\<open>2.*a\<close>, \<^verbatim>\<open>-b - sqrt(...)\<close> and \<^verbatim>\<open>-b + sqrt(...)\<close>.\<close>

definition two_a :: expr where
  "two_a = binop py_mul (float_lit 2) (var ''a'')"

definition minus_b_minus_root :: expr where
  "minus_b_minus_root = binop py_sub (unop py_neg (var ''b'')) root_of_discriminant"

definition minus_b_plus_root :: expr where
  "minus_b_plus_root = binop py_add (unop py_neg (var ''b'')) root_of_discriminant"

definition x1_standard :: expr where
  "x1_standard = binop py_truediv minus_b_plus_root two_a"

definition x2_standard :: expr where
  "x2_standard = binop py_truediv minus_b_minus_root two_a"

definition x1_alternate :: expr where
  "x1_alternate = binop py_truediv (binop py_mul (int_lit 2) (var ''c'')) minus_b_minus_root"

definition x2_alternate :: expr where
  "x2_alternate = binop py_truediv (binop py_mul (int_lit 2) (var ''c'')) minus_b_plus_root"

definition example3_standard :: stmt where
  "example3_standard = block
     [assign ''a'' (float_lit (1 / 10 ^ 4)),
      assign ''b'' (float_lit (10 ^ 4)),
      assign ''c'' (float_lit (1 / 10 ^ 4)),
      assign ''x1'' x1_standard,
      assign ''x2'' x2_standard,
      print_line [text_item ''x1 = '', value_item (var ''x1'')],
      print_line [text_item ''x2 = '', value_item (var ''x2'')]]"

definition example3_alternate :: stmt where
  "example3_alternate = block
     [assign ''x1'' x1_alternate,
      assign ''x2'' x2_alternate,
      print_line [text_item ''x1 = '', value_item (var ''x1'')],
      print_line [text_item ''x2 = '', value_item (var ''x2'')]]"

text \<open>
  Example 4, first cell: the three \<^verbatim>\<open>def\<close>s, the header line, \<^verbatim>\<open>x0 = 1.\<close>, the three
  empty lists, and the sweep \<^verbatim>\<open>for i in range(0,-20,-1):\<close> with the body
  \<^verbatim>\<open>h = 10**i\<close>, \<^verbatim>\<open>df_val = df_numeric(x0,h)\<close>,
  \<^verbatim>\<open>df_err = abs(df_numeric(x0,h) - df_exact(x0)) / df_exact(x0)\<close>, the print of
  \<^verbatim>\<open>h\<close>, \<^verbatim>\<open>df_val\<close>, \<^verbatim>\<open>df_err\<close>, and the three \<^verbatim>\<open>append\<close>s.
\<close>

definition sweep_setup :: "stmt list" where
  "sweep_setup =
     [bind_name ''f'' (User_function ''f''),
      bind_name ''df_exact'' (User_function ''df_exact''),
      bind_name ''df_numeric'' (User_function ''df_numeric''),
      print_line [text_item ''h'', text_item ''f'(1)'', text_item ''Relative error''],
      assign ''x0'' (float_lit 1),
      bind_name ''arr_h'' (List []),
      bind_name ''arr_df'' (List []),
      bind_name ''arr_err'' (List [])]"

definition sweep_body :: "stmt list" where
  "sweep_body =
     [assign ''h'' (binop py_pow (int_lit 10) (var ''i'')),
      assign ''df_val'' (call ''df_numeric'' [var ''x0'', var ''h'']),
      assign ''df_err''
        (binop py_truediv
           (unop py_abs (binop py_sub (call ''df_numeric'' [var ''x0'', var ''h''])
                                      (call ''df_exact'' [var ''x0''])))
           (call ''df_exact'' [var ''x0''])),
      print_line [value_item (var ''h''), value_item (var ''df_val''), value_item (var ''df_err'')],
      append_to ''arr_h'' (var ''h''),
      append_to ''arr_df'' (var ''df_val''),
      append_to ''arr_err'' (var ''df_err'')]"

definition example4_sweep :: stmt where
  "example4_sweep = block (sweep_setup @ [for_range ''i'' 0 (- 20) (- 1) sweep_body])"

text \<open>
  Example 4, second cell: \<^verbatim>\<open>import matplotlib.pyplot as plt\<close>, the dictionary
  \<^verbatim>\<open>params\<close> of plot settings, and the scatter plot of \<^verbatim>\<open>arr_err\<close> against \<^verbatim>\<open>arr_h\<close>.
\<close>

definition example4_plot :: stmt where
  "example4_plot = block
     [bind_name ''plt'' Opaque,
      bind_name ''params'' Opaque,
      scatter_plot ''arr_h'' ''arr_err'']"

definition example1 :: "stmt list" where
  "example1 = [example1_test, example1_eps]"

definition example3 :: "stmt list" where
  "example3 = [example3_standard, example3_alternate]"

definition example4 :: "stmt list" where
  "example4 = [example4_sweep, example4_plot]"

definition notebook :: "stmt list" where
  "notebook = example1 @ [example2] @ example3 @ example4"

text \<open>A new Python process: no name bound, nothing printed.\<close>

definition fresh :: state where
  "fresh = \<lparr>globals = Map.empty, printed = []\<rparr>"

section \<open>Properties of a run\<close>

subsection \<open>Reading a finished run\<close>

text \<open>The lines a list of cells adds to the output when it runs from state \<open>s\<close>.\<close>

definition printed_by :: "stmt list \<Rightarrow> state \<Rightarrow> out list result" where
  "printed_by cells s =
     and_then (block cells s) (\<lambda>s'. Inr (drop (length (printed s)) (printed s')))"

subsection \<open>Self-contained examples\<close>

text \<open>
  An example is self-contained when its cells, run alone in a new process, print what they
  print in the script, that is after the cells \<open>before\<close> it.
\<close>

definition self_contained :: "stmt list \<Rightarrow> stmt list \<Rightarrow> bool" where
  "self_contained before cells \<longleftrightarrow>
     printed_by cells fresh = and_then (block before fresh) (printed_by cells)"

subsection \<open>Denominators\<close>

text \<open>
  Every \<^verbatim>\<open>/\<close> of the notebook divides by one of these: \<^verbatim>\<open>delta\<close> (Example 2), \<^verbatim>\<open>2.*a\<close>,
  \<^verbatim>\<open>-b - sqrt(...)\<close>, \<^verbatim>\<open>-b + sqrt(...)\<close> (Example 3), \<^verbatim>\<open>df_exact(x0)\<close> and \<^verbatim>\<open>h\<close>
  (Example 4; \<^verbatim>\<open>h\<close> takes the values collected in \<^verbatim>\<open>arr_h\<close>).
\<close>

definition denominators :: "expr list" where
  "denominators =
     [var ''delta'', two_a, minus_b_minus_root, minus_b_plus_root, call ''df_exact'' [var ''x0'']]"

subsection \<open>The sweep, one row at a time\<close>

text \<open>\<open>|v - e| / e\<close> in binary64, as \<^verbatim>\<open>abs(... - df_exact(x0)) / df_exact(x0)\<close> computes it.\<close>

definition relative_error :: "number \<Rightarrow> number \<Rightarrow> number result" where
  "relative_error v e = and_then (py_sub v e) (\<lambda>t. py_truediv (py_abs t) e)"

definition df_err_of :: "number \<Rightarrow> number \<Rightarrow> number result" where
  "df_err_of x0 d = and_then (df_exact x0) (relative_error d)"

text \<open>What one pass through the loop body computes for the loop variable \<open>k\<close>.\<close>

definition sweep_row :: "number \<Rightarrow> int \<Rightarrow> (number \<times> number \<times> number) result" where
  "sweep_row x0 k =
     and_then (py_pow (IntV 10) (IntV k)) (\<lambda>h.
     and_then (df_numeric x0 h) (\<lambda>d.
     and_then (df_err_of x0 d) (\<lambda>r. Inr (h, d, r))))"

text \<open>The rows of a whole sweep, for the loop variable running through \<open>ks\<close>.\<close>

fun sweep_rows :: "number \<Rightarrow> int list \<Rightarrow> (number \<times> number \<times> number) list result" where
  "sweep_rows x0 [] = Inr []"
| "sweep_rows x0 (k # ks) =
     and_then (sweep_row x0 k) (\<lambda>r. and_then (sweep_rows x0 ks) (\<lambda>rs. Inr (r # rs)))"

text \<open>The names the loop body assigns.\<close>

definition loop_names :: "string set" where
  "loop_names = {''i'', ''h'', ''df_val'', ''df_err'', ''arr_h'', ''arr_df'', ''arr_err''}"

text \<open>
  The invariant of the sweep: the three lists have one length, and each stored error is
  the relative error of the stored derivative at the same index.
\<close>

definition sweep_invariant :: "state \<Rightarrow> bool" where
  "sweep_invariant s \<longleftrightarrow>
     (\<exists>x0 hs ds es.
        globals s ''x0'' = Some (Number x0) \<and>
        globals s ''arr_h'' = Some (List hs) \<and>
        globals s ''arr_df'' = Some (List ds) \<and>
        globals s ''arr_err'' = Some (List es) \<and>
        length hs = length ds \<and> length ds = length es \<and>
        (\<forall>k < length es. df_err_of x0 (ds ! k) = Inr (es ! k)))"

text \<open>The values of the loop variable, \<^verbatim>\<open>range(0,-20,-1)\<close> written out.\<close>

definition sweep_indices :: "int list" where
  "sweep_indices = [0, - 1, - 2, - 3, - 4, - 5, - 6, - 7, - 8, - 9, - 10, - 11, - 12, - 13,
      - 14, - 15, - 16, - 17, - 18, - 19]"

text \<open>The state after the first \<open>n\<close> passes of the sweep, the cell starting in state \<open>s\<close>.\<close>

definition sweep_after :: "nat \<Rightarrow> state \<Rightarrow> state result" where
  "sweep_after n s =
     and_then (block sweep_setup s) (\<lambda>s0.
     and_then (py_range 0 (- 20) (- 1)) (\<lambda>ks. iterate ''i'' (take n ks) sweep_body s0))"

subsection \<open>Computed roots against analytic roots\<close>

text \<open>A computed value matches a real number within the relative tolerance \<open>tol\<close>.\<close>

definition within_tolerance :: "real \<Rightarrow> number \<Rightarrow> real \<Rightarrow> bool" where
  "within_tolerance tol v r \<longleftrightarrow> \<bar>real_of_rat (val v) - r\<bar> \<le> tol * \<bar>r\<bar>"

text \<open>The analytic roots for \<open>a = 10\<^sup>-\<^sup>4\<close>, \<open>b = 10\<^sup>4\<close>, \<open>c = 10\<^sup>-\<^sup>4\<close>.\<close>

definition analytic_x1 :: real where
  "analytic_x1 = x1_standard_real (1 / 10 ^ 4) (10 ^ 4) (1 / 10 ^ 4)"

definition analytic_x2 :: real where
  "analytic_x2 = x2_standard_real (1 / 10 ^ 4) (10 ^ 4) (1 / 10 ^ 4)"

text \<open>
  The four roots Example 3 computes, each against the analytic root it stands for. The
  cells of Example 3 run after Example 2, which imports \<^verbatim>\<open>sqrt\<close>.
\<close>

definition roots_match :: "real \<Rightarrow> bool" where
  "roots_match tol \<longleftrightarrow>
     (\<exists>s1 s2 v1 v2 w1 w2.
        block [example2, example3_standard] fresh = Inr s1 \<and>
        example3_alternate s1 = Inr s2 \<and>
        globals s1 ''x1'' = Some (Number v1) \<and> globals s1 ''x2'' = Some (Number v2) \<and>
        globals s2 ''x1'' = Some (Number w1) \<and> globals s2 ''x2'' = Some (Number w2) \<and>
        within_tolerance tol v1 analytic_x1 \<and> within_tolerance tol v2 analytic_x2 \<and>
        within_tolerance tol w1 analytic_x1 \<and> within_tolerance tol w2 analytic_x2)"

section \<open>The output stored in the notebook\<close>

text \<open>
  The notebook file keeps what each cell printed when its author ran it. Python prints a
  float as the shortest decimal that reads back as the same float, so a printed decimal
  \<open>d\<close> stands for the binary64 value nearest to \<open>d\<close>; a number printed without a point or
  an exponent is an integer.
\<close>

definition float_shown_as :: "rat \<Rightarrow> number" where
  "float_shown_as d = (case fp_round d of Inr r \<Rightarrow> FloatV r | Inl e \<Rightarrow> FloatV 0)"

definition recorded_example1_test :: "out list" where
  "recorded_example1_test =
    [Line [Str ''x = '', Val (float_shown_as (33000000000000003 / 10 ^ 16))],
     Line [Val (float_shown_as (33 / 10))],
     Line [Str ''x == 3.3 is False'']]"

definition recorded_example1_eps :: "out list" where
  "recorded_example1_eps =
    [Line [Str ''x = '', Val (float_shown_as (33000000000000003 / 10 ^ 16))],
     Line [Str ''x == 3.3 to a precision of'', Val (float_shown_as (1 / 10 ^ 12)),
           Str ''is True'']]"

definition recorded_example2 :: "out list" where
  "recorded_example2 =
    [Line [Str ''x = '', Val (float_shown_as 1)],
     Line [Str ''y = '', Val (float_shown_as (10000000000000142 / 10 ^ 16))],
     Line [Str ''(1/delta) * (y-x) = '',
           Val (float_shown_as (14210854715202004 / 10 ^ 16))],
     Line [Str ''The accurate value is sqrt(2) = '',
           Val (float_shown_as (14142135623730951 / 10 ^ 16))],
     Line [Str ''The difference is '', Val (float_shown_as (6871909147105226 / 10 ^ 18))]]"

definition recorded_example3_standard :: "out list" where
  "recorded_example3_standard =
    [Line [Str ''x1 = '', Val (float_shown_as (- (9094947017729282 / 10 ^ 24)))],
     Line [Str ''x2 = '', Val (float_shown_as (- 100000000))]]"

definition recorded_example3_alternate :: "out list" where
  "recorded_example3_alternate =
    [Line [Str ''x1 = '', Val (float_shown_as (- (1 / 10 ^ 8)))],
     Line [Str ''x2 = '', Val (float_shown_as (- (1099511627776 / 10 ^ 4)))]]"

text \<open>
  The table of the sweep, a row \<^verbatim>\<open>h\<close>, \<^verbatim>\<open>f'(1)\<close>, \<^verbatim>\<open>Relative error\<close> for each pass, below
  its header line.
\<close>

definition recorded_header :: out where
  "recorded_header = Line [Str ''h'', Str ''f'(1)'', Str ''Relative error'']"

definition recorded_sweep :: "(number \<times> number \<times> number) list" where
  "recorded_sweep =
    [(IntV 1,
      float_shown_as 2,
      float_shown_as 1),
     (float_shown_as (1 / 10),
      float_shown_as (1100000000000001 / 10 ^ 15),
      float_shown_as (10000000000000098 / 10 ^ 17)),
     (float_shown_as (1 / 10 ^ 2),
      float_shown_as (1010000000000001 / 10 ^ 15),
      float_shown_as (10000000000000897 / 10 ^ 18)),
     (float_shown_as (1 / 10 ^ 3),
      float_shown_as (10009999999998895 / 10 ^ 16),
      float_shown_as (9999999998895337 / 10 ^ 19)),
     (float_shown_as (1 / 10 ^ 4),
      float_shown_as (10000999999998899 / 10 ^ 16),
      float_shown_as (9999999988985486 / 10 ^ 20)),
     (float_shown_as (1 / 10 ^ 5),
      float_shown_as (10000100000065513 / 10 ^ 16),
      float_shown_as (10000006551269536 / 10 ^ 21)),
     (float_shown_as (1 / 10 ^ 6),
      float_shown_as (10000009999177333 / 10 ^ 16),
      float_shown_as (999917733279787 / 10 ^ 21)),
     (float_shown_as (1 / 10 ^ 7),
      float_shown_as (10000001005838672 / 10 ^ 16),
      float_shown_as (10058386723521551 / 10 ^ 23)),
     (float_shown_as (1 / 10 ^ 8),
      float_shown_as (10000000039225287 / 10 ^ 16),
      float_shown_as (3922528746258536 / 10 ^ 24)),
     (float_shown_as (1 / 10 ^ 9),
      float_shown_as (1000000083740371 / 10 ^ 15),
      float_shown_as (8374037108183074 / 10 ^ 23)),
     (float_shown_as (1 / 10 ^ 10),
      float_shown_as (1000000082840371 / 10 ^ 15),
      float_shown_as (8284037100736441 / 10 ^ 23)),
     (float_shown_as (1 / 10 ^ 11),
      float_shown_as (1000000082750371 / 10 ^ 15),
      float_shown_as (8275037099991778 / 10 ^ 23)),
     (float_shown_as (1 / 10 ^ 12),
      float_shown_as (10000889005833413 / 10 ^ 16),
      float_shown_as (8890058334132256 / 10 ^ 20)),
     (float_shown_as (1 / 10 ^ 13),
      float_shown_as (9992007221627407 / 10 ^ 16),
      float_shown_as (7992778372593046 / 10 ^ 19)),
     (float_shown_as (1 / 10 ^ 14),
      float_shown_as (9992007221626509 / 10 ^ 16),
      float_shown_as (7992778373491216 / 10 ^ 19)),
     (float_shown_as (1 / 10 ^ 15),
      float_shown_as (11102230246251577 / 10 ^ 16),
      float_shown_as (11022302462515765 / 10 ^ 17)),
     (float_shown_as (1 / 10 ^ 16),
      float_shown_as 0,
      float_shown_as 1),
     (float_shown_as (1 / 10 ^ 17),
      float_shown_as 0,
      float_shown_as 1),
     (float_shown_as (1 / 10 ^ 18),
      float_shown_as 0,
      float_shown_as 1),
     (float_shown_as (1 / 10 ^ 19),
      float_shown_as 0,
      float_shown_as 1)]"

definition row_line :: "number \<times> number \<times> number \<Rightarrow> out" where
  "row_line r = (case r of (h, d, e) \<Rightarrow> Line [Val h, Val d, Val e])"

text \<open>
  The output of Example 4: the header and the twenty rows as stored, and the plot as the
  two lists it is drawn from.
\<close>

definition recorded_example4 :: "out list" where
  "recorded_example4 =
     recorded_header # map row_line recorded_sweep
       @ [Scatter (map fst recorded_sweep) (map (snd \<circ> snd) recorded_sweep)]"

section \<open>Exact-arithmetic identities\<close>

lemma discriminant_root_square:
  fixes a b c :: real
  assumes "0 \<le> b * b - 4 * a * c"
  shows "sqrt (b * b - 4 * a * c) * sqrt (b * b - 4 * a * c) = b * b - 4 * a * c"
  using assms by simp

lemma conjugate_product:
  fixes a b c :: real
  assumes "0 \<le> b * b - 4 * a * c"
  shows "(- b + sqrt (b * b - 4 * a * c)) * (- b - sqrt (b * b - 4 * a * c)) = 4 * a * c"
proof -
  have "(- b + sqrt (b * b - 4 * a * c)) * (- b - sqrt (b * b - 4 * a * c))
      = b * b - sqrt (b * b - 4 * a * c) * sqrt (b * b - 4 * a * c)"
    by (simp add: algebra_simps)
  also have "\<dots> = 4 * a * c"
    using discriminant_root_square [OF assms] by simp
  finally show ?thesis .
qed

lemma conjugates_nonzero:
  fixes a b c :: real
  assumes "a \<noteq> 0" and "c \<noteq> 0" and "0 \<le> b * b - 4 * a * c"
  shows "- b + sqrt (b * b - 4 * a * c) \<noteq> 0" and "- b - sqrt (b * b - 4 * a * c) \<noteq> 0"
proof -
  have "(- b + sqrt (b * b - 4 * a * c)) * (- b - sqrt (b * b - 4 * a * c)) \<noteq> 0"
    using conjugate_product [OF assms(3)] assms(1,2) by simp
  then show "- b + sqrt (b * b - 4 * a * c) \<noteq> 0" and "- b - sqrt (b * b - 4 * a * c) \<noteq> 0"
    by auto
qed

text \<open>
  C1. For all real \<open>a\<close>, \<open>b\<close>, \<open>c\<close> with \<open>a \<noteq> 0\<close>, \<open>c \<noteq> 0\<close> and \<open>b\<^sup>2 - 4ac \<ge> 0\<close>, the
  standard form of cell 9 and the alternate form of cell 11 give the same root in exact
  arithmetic: \<open>(-b + \<surd>(b\<^sup>2-4ac))/(2a) = 2c/(-b - \<surd>(b\<^sup>2-4ac))\<close> and
  \<open>(-b - \<surd>(b\<^sup>2-4ac))/(2a) = 2c/(-b + \<surd>(b\<^sup>2-4ac))\<close>. No denominator of the four
  quotients is zero, so the equalities are between genuine quotients.
\<close>

theorem quadratic_forms_equivalent:
  fixes a b c :: real
  assumes "a \<noteq> 0" and "c \<noteq> 0" and "0 \<le> b * b - 4 * a * c"
  shows "x1_standard_real a b c = x1_alternate_real a b c
       \<and> x2_standard_real a b c = x2_alternate_real a b c
       \<and> 2 * a \<noteq> 0
       \<and> - b - sqrt (b * b - 4 * a * c) \<noteq> 0
       \<and> - b + sqrt (b * b - 4 * a * c) \<noteq> 0"
proof -
  let ?s = "sqrt (b * b - 4 * a * c)"
  have p: "(- b + ?s) * (- b - ?s) = 4 * a * c"
    by (rule conjugate_product [OF assms(3)])
  have nz: "- b + ?s \<noteq> 0" "- b - ?s \<noteq> 0"
    using conjugates_nonzero [OF assms] by simp_all
  have "(- b + ?s) / (2 * a) = 2 * c / (- b - ?s)"
  proof -
    have "(- b + ?s) * (- b - ?s) = 2 * c * (2 * a)"
      using p by simp
    then show ?thesis
      using nz(2) assms(1) by (simp add: frac_eq_eq)
  qed
  moreover have "(- b - ?s) / (2 * a) = 2 * c / (- b + ?s)"
  proof -
    have "(- b - ?s) * (- b + ?s) = 2 * c * (2 * a)"
      using p by (simp add: mult.commute)
    then show ?thesis
      using nz(1) assms(1) by (simp add: frac_eq_eq)
  qed
  ultimately show ?thesis
    using nz assms(1)
    by (simp add: x1_standard_real_def x1_alternate_real_def
        x2_standard_real_def x2_alternate_real_def)
qed

theorem quadratic_forms_equivalent_witness:
  "(1::real) \<noteq> 0 \<and> (2::real) \<noteq> 0 \<and> (0::real) \<le> (- 3) * (- 3) - 4 * 1 * 2
   \<and> x1_standard_real 1 (- 3) 2 = x1_alternate_real 1 (- 3) 2
   \<and> x2_standard_real 1 (- 3) 2 = x2_alternate_real 1 (- 3) 2
   \<and> x1_standard_real 1 (- 3) 2 = 2
   \<and> x2_standard_real 1 (- 3) 2 = 1"
proof -
  have h: "(1::real) \<noteq> 0" "(2::real) \<noteq> 0" "(0::real) \<le> (- 3) * (- 3) - 4 * 1 * 2"
    by simp_all
  have v: "x1_standard_real 1 (- 3) 2 = 2" "x2_standard_real 1 (- 3) 2 = 1"
    by (simp_all add: x1_standard_real_def x2_standard_real_def)
  show ?thesis
    using quadratic_forms_equivalent [OF h] h v by simp
qed

text \<open>
  C2. For \<open>f(x) = x(x-1)\<close> the forward difference has truncation error exactly \<open>h\<close>: for
  every real \<open>x\<close> and every \<open>h \<noteq> 0\<close>, \<open>df_numeric(x, h) = (f(x+h) - f(x))/h = 2x - 1 + h
  = df_exact(x) + h\<close>; at \<open>x = 1\<close> the error \<open>df_numeric(1, h) - df_exact(1)\<close> is \<open>h\<close>.
\<close>

theorem df_numeric_truncation_error:
  fixes x h :: real
  assumes "h \<noteq> 0"
  shows "df_numeric_real x h = (f_real (x + h) - f_real x) / h
       \<and> df_numeric_real x h = 2 * x - 1 + h
       \<and> df_numeric_real x h = df_exact_real x + h
       \<and> df_numeric_real 1 h - df_exact_real 1 = h"
proof -
  have d: "f_real (y + h) - f_real y = (2 * y - 1 + h) * h" for y
    by (simp add: f_real_def algebra_simps)
  have e: "df_numeric_real y h = 2 * y - 1 + h" for y
    unfolding df_numeric_real_def d using assms by simp
  show ?thesis
    using e [of x] e [of 1] by (simp add: df_numeric_real_def df_exact_real_def)
qed

theorem df_numeric_truncation_error_witness:
  "(1 / 10 :: real) \<noteq> 0 \<and> df_numeric_real 1 (1 / 10) = 11 / 10
   \<and> df_numeric_real 1 (1 / 10) - df_exact_real 1 = 1 / 10"
proof -
  have h: "(1 / 10 :: real) \<noteq> 0" by simp
  show ?thesis
    using df_numeric_truncation_error [OF h, of 1] by simp
qed

text \<open>
  C3. The values of the quadratic formula are roots: for all real \<open>a\<close>, \<open>b\<close>, \<open>c\<close> with
  \<open>a \<noteq> 0\<close> and \<open>b\<^sup>2 - 4ac \<ge> 0\<close>, both \<open>x = (-b + \<surd>(b\<^sup>2-4ac))/(2a)\<close> and
  \<open>x = (-b - \<surd>(b\<^sup>2-4ac))/(2a)\<close> satisfy \<open>a x\<^sup>2 + b x + c = 0\<close> in exact arithmetic.
\<close>

theorem quadratic_formula_gives_roots:
  fixes a b c :: real
  assumes "a \<noteq> 0" and "0 \<le> b * b - 4 * a * c"
  shows "a * (x1_standard_real a b c)\<^sup>2 + b * x1_standard_real a b c + c = 0
       \<and> a * (x2_standard_real a b c)\<^sup>2 + b * x2_standard_real a b c + c = 0"
proof -
  let ?s = "sqrt (b * b - 4 * a * c)"
  have s: "?s * ?s = b * b - 4 * a * c"
    by (rule discriminant_root_square [OF assms(2)])
  have r: "a * (n / (2 * a))\<^sup>2 + b * (n / (2 * a)) + c = (n * n + 2 * b * n + 4 * a * c) / (4 * a)"
    for n :: real
    using assms(1) by (simp add: field_simps power2_eq_square)
  have "(- b + ?s) * (- b + ?s) + 2 * b * (- b + ?s) + 4 * a * c = ?s * ?s - (b * b - 4 * a * c)"
    by (simp add: algebra_simps)
  then have p: "(- b + ?s) * (- b + ?s) + 2 * b * (- b + ?s) + 4 * a * c = 0"
    using s by simp
  have "(- b - ?s) * (- b - ?s) + 2 * b * (- b - ?s) + 4 * a * c = ?s * ?s - (b * b - 4 * a * c)"
    by (simp add: algebra_simps)
  then have m: "(- b - ?s) * (- b - ?s) + 2 * b * (- b - ?s) + 4 * a * c = 0"
    using s by simp
  show ?thesis
    unfolding x1_standard_real_def x2_standard_real_def r p m by simp
qed

theorem quadratic_formula_gives_roots_witness:
  "(1::real) \<noteq> 0 \<and> (0::real) \<le> (- 3) * (- 3) - 4 * 1 * 2
   \<and> 1 * (x1_standard_real 1 (- 3) 2)\<^sup>2 + (- 3) * x1_standard_real 1 (- 3) 2 + 2 = 0
   \<and> 1 * (x2_standard_real 1 (- 3) 2)\<^sup>2 + (- 3) * x2_standard_real 1 (- 3) 2 + 2 = 0"
proof -
  have h: "(1::real) \<noteq> 0" "(0::real) \<le> (- 3) * (- 3) - 4 * 1 * 2"
    by simp_all
  show ?thesis
    using quadratic_formula_gives_roots [OF h] h by simp
qed

text \<open>
  C4. The identity behind Example 2: for every real \<open>\<delta> \<noteq> 0\<close>, with \<open>x = 1\<close> and
  \<open>y = 1 + \<delta>\<surd>2\<close>, \<open>(1/\<delta>)(y - x) = \<surd>2\<close> in exact arithmetic.
\<close>

theorem cancellation_identity:
  fixes delta :: real
  assumes "delta \<noteq> 0"
  shows "res_real delta = sqrt 2"
  using assms by (simp add: res_real_def y_real_def x_real_def)

theorem cancellation_identity_witness:
  "(1 / 10 ^ 14 :: real) \<noteq> 0 \<and> res_real (1 / 10 ^ 14) = sqrt 2"
proof -
  have h: "(1 / 10 ^ 14 :: real) \<noteq> 0" by simp
  show ?thesis
    using cancellation_identity [OF h] h by simp
qed

section \<open>What the binary64 model guarantees\<close>

text \<open>
  The rounding functions are written to be evaluated. These lemmas say what they compute:
  the result of \<open>fp_round\<close> is a 53-bit integer times a power of two and lies within half
  a unit in the last place of the number rounded, and the result of \<open>fp_sqrt\<close> lies
  within half a unit in the last place of the real square root.
\<close>

lemma bit_length_nonpos: "n < 1 \<Longrightarrow> bit_length n = 0"
  by (simp add: bit_length.simps)

lemma bit_length_pos: "1 \<le> n \<Longrightarrow> 1 \<le> bit_length n"
proof (induction n rule: bit_length.induct)
  case (1 n)
  have "bit_length n = 1 + bit_length (n div 2)"
    using "1.prems" by (subst bit_length.simps) simp
  moreover have "0 \<le> bit_length (n div 2)"
  proof (cases "n div 2 < 1")
    case True
    then show ?thesis by (simp add: bit_length_nonpos)
  next
    case False
    then show ?thesis using "1.IH" "1.prems" by simp
  qed
  ultimately show ?case by simp
qed

lemma bit_length_bounds:
  "1 \<le> n \<Longrightarrow> 2 ^ nat (bit_length n - 1) \<le> n \<and> n < 2 ^ nat (bit_length n)"
proof (induction n rule: bit_length.induct)
  case (1 n)
  have eq: "bit_length n = 1 + bit_length (n div 2)"
    using "1.prems" by (subst bit_length.simps) simp
  show ?case
  proof (cases "n div 2 < 1")
    case True
    then have "bit_length n = 1"
      by (simp add: eq bit_length_nonpos)
    moreover have "n = 1" using True "1.prems" by linarith
    ultimately show ?thesis
      by simp
  next
    case False
    then have h: "1 \<le> n div 2" by simp
    have b: "1 \<le> bit_length (n div 2)"
      by (rule bit_length_pos [OF h])
    have ih: "2 ^ nat (bit_length (n div 2) - 1) \<le> n div 2"
      "n div 2 < 2 ^ nat (bit_length (n div 2))"
      using "1.IH" "1.prems" h by simp_all
    have lo: "2 * 2 ^ nat (bit_length (n div 2) - 1) \<le> n"
      using ih(1) by linarith
    have hi: "n < 2 * 2 ^ nat (bit_length (n div 2))"
      using ih(2) by linarith
    have "nat (bit_length n - 1) = Suc (nat (bit_length (n div 2) - 1))"
      "nat (bit_length n) = Suc (nat (bit_length (n div 2)))"
      using b by (simp_all add: eq)
    then show ?thesis
      using lo hi by simp
  qed
qed

lemma ilog2_bounds:
  fixes q :: rat
  assumes "0 < q"
  shows "2 powi (ilog2 q) \<le> q \<and> q < 2 powi (ilog2 q + 1)"
proof (cases "1 \<le> q")
  case True
  let ?n = "\<lfloor>q\<rfloor>"
  let ?b = "bit_length ?n"
  have n: "1 \<le> ?n" using True by simp
  have b: "1 \<le> ?b" by (rule bit_length_pos [OF n])
  have bounds: "2 ^ nat (?b - 1) \<le> ?n" "?n < 2 ^ nat ?b"
    using bit_length_bounds [OF n] by simp_all
  have e: "ilog2 q = ?b - 1"
    using True by (simp add: ilog2_def)
  have "(of_int (2 ^ nat (?b - 1)) :: rat) \<le> of_int ?n"
    using bounds(1) by (simp only: of_int_le_iff)
  also have "\<dots> \<le> q" by simp
  finally have lo: "(2::rat) ^ nat (?b - 1) \<le> q" by simp
  have "?n + 1 \<le> 2 ^ nat ?b"
    using bounds(2) by simp
  then have "(of_int (?n + 1) :: rat) \<le> of_int (2 ^ nat ?b)"
    by (simp only: of_int_le_iff)
  moreover have "q < of_int (?n + 1)"
    using floor_correct [of q] by simp
  ultimately have hi: "q < (2::rat) ^ nat ?b" by simp
  show ?thesis
    using lo hi b by (simp add: e power_int_def)
next
  case False
  let ?c = "\<lceil>1 / q\<rceil>"
  let ?m = "?c - 1"
  let ?b = "bit_length ?m"
  have q1: "1 < 1 / q" using False assms by simp
  have m: "1 \<le> ?m"
  proof -
    have "1 < ?c" using q1 by (simp add: less_ceiling_iff)
    then show ?thesis by simp
  qed
  have b: "1 \<le> ?b" by (rule bit_length_pos [OF m])
  have bounds: "2 ^ nat (?b - 1) \<le> ?m" "?m < 2 ^ nat ?b"
    using bit_length_bounds [OF m] by simp_all
  have e: "ilog2 q = - ?b"
    using False by (simp add: ilog2_def)
  have "1 / q \<le> of_int ?c" by (rule le_of_int_ceiling)
  also have "(of_int ?c :: rat) \<le> of_int (2 ^ nat ?b)"
  proof -
    have "?c \<le> 2 ^ nat ?b" using bounds(2) by simp
    then show ?thesis by (simp only: of_int_le_iff)
  qed
  finally have "1 / q \<le> 2 ^ nat ?b" by simp
  then have "1 \<le> 2 ^ nat ?b * q"
    using assms by (simp add: field_simps)
  then have lo: "1 / 2 ^ nat ?b \<le> q"
    by (simp add: field_simps)
  have "(of_int (2 ^ nat (?b - 1)) :: rat) \<le> of_int ?m"
    using bounds(1) by (simp only: of_int_le_iff)
  moreover have "of_int ?m < 1 / q"
    using ceiling_correct [of "1 / q"] by simp
  ultimately have "2 ^ nat (?b - 1) < 1 / q" by simp
  then have "2 ^ nat (?b - 1) * q < 1"
    using assms by (simp add: field_simps)
  then have hi: "q < 1 / 2 ^ nat (?b - 1)"
    by (simp add: field_simps)
  have n1: "nat (?b - 1) = nat ?b - 1" by simp
  show ?thesis
  proof (cases "?b = 1")
    case True
    then show ?thesis
      using lo hi by (simp add: e power_int_def)
  next
    case False
    then have "1 < ?b" using b by simp
    then show ?thesis
      using lo hi by (simp add: e power_int_def power_inverse [symmetric] field_simps)
  qed
qed

lemma round_half_even_cases:
  "round_half_even q = \<lfloor>q\<rfloor> \<and> q - of_int \<lfloor>q\<rfloor> \<le> 1 / 2
   \<or> round_half_even q = \<lfloor>q\<rfloor> + 1 \<and> 1 / 2 \<le> q - of_int \<lfloor>q\<rfloor>"
  by (simp add: round_half_even_def Let_def)

lemma round_half_even_close: "\<bar>of_int (round_half_even q) - q\<bar> \<le> 1 / 2"
proof -
  have f: "of_int \<lfloor>q\<rfloor> \<le> q" "q < of_int \<lfloor>q\<rfloor> + 1"
    using floor_correct [of q] by simp_all
  from round_half_even_cases [of q] show ?thesis
  proof
    assume "round_half_even q = \<lfloor>q\<rfloor> \<and> q - of_int \<lfloor>q\<rfloor> \<le> 1 / 2"
    then show ?thesis using f by simp
  next
    assume "round_half_even q = \<lfloor>q\<rfloor> + 1 \<and> 1 / 2 \<le> q - of_int \<lfloor>q\<rfloor>"
    then show ?thesis using f by simp
  qed
qed

lemma round_half_even_mono_int:
  assumes "q \<le> of_int k"
  shows "round_half_even q \<le> k"
proof -
  have "\<lfloor>q\<rfloor> \<le> k" using assms by (simp add: floor_le_iff)
  show ?thesis
  proof (cases "\<lfloor>q\<rfloor> = k")
    case True
    then have "q = of_int k" using assms by (metis of_int_floor_le order_antisym)
    then show ?thesis by (simp add: round_half_even_def)
  next
    case False
    then have "\<lfloor>q\<rfloor> + 1 \<le> k" using \<open>\<lfloor>q\<rfloor> \<le> k\<close> by simp
    then show ?thesis
      by (auto simp: round_half_even_def Let_def)
  qed
qed

text \<open>
  What rounding gives: a binary64 number, an integer of at most 53 bits times a power of
  two not below \<open>2\<^sup>-\<^sup>1\<^sup>0\<^sup>7\<^sup>4\<close>, at most half a unit in the last place away from the
  number rounded.
\<close>

lemma fp_round_spec:
  assumes "fp_round q = Inr r" and "q \<noteq> 0"
  defines "u \<equiv> max (ilog2 \<bar>q\<bar> - 52) (- 1074)"
  shows "\<exists>m. r = of_int m * 2 powi u \<and> \<bar>m\<bar> \<le> 2 ^ 53"
    and "\<bar>r - q\<bar> \<le> 2 powi u / 2"
    and "\<bar>r\<bar> < 2 powi 1024"
proof -
  define k where "k = round_half_even (\<bar>q\<bar> / 2 powi u)"
  have r: "r = sgn q * of_int k * 2 powi u" and fin: "\<bar>r\<bar> < 2 powi 1024"
    using assms(1,2) by (auto simp: fp_round_def Let_def u_def k_def split: if_splits)
  have pos: "(0::rat) < 2 powi u" by simp
  have q: "0 < \<bar>q\<bar>" using assms(2) by simp
  have e: "\<bar>q\<bar> < 2 powi (ilog2 \<bar>q\<bar> + 1)"
    using ilog2_bounds [OF q] by simp
  have "(2::rat) powi (ilog2 \<bar>q\<bar> + 1) \<le> 2 powi (u + 53)"
    by (rule power_int_increasing) (simp_all add: u_def)
  also have "\<dots> = 2 powi u * 2 ^ 53"
    by (simp add: power_int_add)
  finally have "\<bar>q\<bar> < 2 powi u * 2 ^ 53"
    using e by simp
  then have "\<bar>q\<bar> / 2 powi u < 2 ^ 53"
    using pos by (simp add: field_simps)
  then have "\<bar>q\<bar> / 2 powi u \<le> of_int (2 ^ 53)"
    by simp
  then have k_hi: "k \<le> 2 ^ 53"
    unfolding k_def by (rule round_half_even_mono_int)
  have "0 \<le> \<bar>q\<bar> / 2 powi u" by simp
  then have "0 \<le> \<lfloor>\<bar>q\<bar> / 2 powi u\<rfloor>" by simp
  then have k_lo: "0 \<le> k"
    unfolding k_def using round_half_even_cases [of "\<bar>q\<bar> / 2 powi u"] by auto
  define m :: int where "m = (if 0 < q then k else - k)"
  have "r = of_int m * 2 powi u"
    using assms(2) by (simp add: r m_def sgn_if)
  moreover have "\<bar>m\<bar> \<le> 2 ^ 53"
    using k_lo k_hi by (simp add: m_def)
  ultimately show "\<exists>m. r = of_int m * 2 powi u \<and> \<bar>m\<bar> \<le> 2 ^ 53"
    by blast
  have c: "\<bar>of_int k - \<bar>q\<bar> / 2 powi u\<bar> \<le> 1 / 2"
    unfolding k_def by (rule round_half_even_close)
  have s: "\<bar>sgn q\<bar> = 1" using assms(2) by (simp add: abs_sgn_eq)
  have "sgn q * ((of_int k - \<bar>q\<bar> / 2 powi u) * 2 powi u) = sgn q * of_int k * 2 powi u - sgn q * \<bar>q\<bar>"
    using pos by (simp add: algebra_simps)
  also have "\<dots> = r - q"
    by (simp add: r sgn_mult_abs)
  finally have "r - q = sgn q * ((of_int k - \<bar>q\<bar> / 2 powi u) * 2 powi u)"
    by simp
  then have "\<bar>r - q\<bar> = \<bar>sgn q\<bar> * \<bar>(of_int k - \<bar>q\<bar> / 2 powi u) * 2 powi u\<bar>"
    by (simp only: abs_mult)
  also have "\<dots> = \<bar>of_int k - \<bar>q\<bar> / 2 powi u\<bar> * 2 powi u"
    unfolding s using pos by (simp add: abs_mult)
  also have "\<dots> \<le> 1 / 2 * 2 powi u"
    using c pos by (intro mult_right_mono) simp_all
  finally show "\<bar>r - q\<bar> \<le> 2 powi u / 2" by simp
  show "\<bar>r\<bar> < 2 powi 1024" by (rule fin)
qed

text \<open>In the normal range the error is at most \<open>2\<^sup>-\<^sup>5\<^sup>3\<close> of the number rounded.\<close>

lemma fp_round_relative:
  assumes "fp_round q = Inr r" and "2 powi (- 1022) \<le> \<bar>q\<bar>"
  shows "\<bar>r - q\<bar> \<le> \<bar>q\<bar> / 2 ^ 53"
proof -
  have q0: "q \<noteq> 0"
  proof
    assume "q = 0"
    then have "(2::rat) powi (- 1022) \<le> 0" using assms(2) by simp
    then show False by (simp add: not_le [symmetric, of "0::rat"] del: not_le)
  qed
  then have q: "0 < \<bar>q\<bar>" by simp
  let ?e = "ilog2 \<bar>q\<bar>"
  have lo: "2 powi ?e \<le> \<bar>q\<bar>" and hi: "\<bar>q\<bar> < 2 powi (?e + 1)"
    using ilog2_bounds [OF q] by simp_all
  have "(2::rat) powi (- 1022) < 2 powi (?e + 1)"
    using assms(2) hi by simp
  have "- 1022 < ?e + 1"
  proof (rule ccontr)
    assume "\<not> - 1022 < ?e + 1"
    then have "?e + 1 \<le> - 1022" by simp
    then have "(2::rat) powi (?e + 1) \<le> 2 powi (- 1022)"
      by (rule power_int_increasing) simp
    then show False
      using \<open>(2::rat) powi (- 1022) < 2 powi (?e + 1)\<close> by simp
  qed
  then have u: "max (?e - 52) (- 1074) = ?e - 52" by simp
  have "\<bar>r - q\<bar> \<le> 2 powi (?e - 52) / 2"
    using fp_round_spec(2) [OF assms(1) q0] by (simp only: u)
  also have "\<dots> = 2 powi ?e / 2 ^ 53"
    by (simp add: power_int_diff)
  also have "\<dots> \<le> \<bar>q\<bar> / 2 ^ 53"
    using lo by (simp add: divide_right_mono)
  finally show ?thesis .
qed

lemma isqrt_bounds:
  "0 \<le> n \<Longrightarrow> 0 \<le> isqrt n \<and> isqrt n * isqrt n \<le> n \<and> n < (isqrt n + 1) * (isqrt n + 1)"
proof (induction n rule: isqrt.induct)
  case (1 n)
  show ?case
  proof (cases "n < 1")
    case True
    then have "n = 0" using "1.prems" by simp
    then show ?thesis by (simp add: isqrt.simps)
  next
    case False
    define s where "s = isqrt (n div 4)"
    have ih: "0 \<le> s" "s * s \<le> n div 4" "n div 4 < (s + 1) * (s + 1)"
      using "1.IH" [OF False] "1.prems" by (simp_all add: s_def)
    have lo: "(2 * s) * (2 * s) \<le> n"
    proof -
      have "4 * (s * s) \<le> 4 * (n div 4)" using ih(2) by simp
      also have "\<dots> \<le> n" by simp
      finally show ?thesis by (simp add: algebra_simps)
    qed
    have hi: "n < (2 * s + 2) * (2 * s + 2)"
    proof -
      have "n div 4 + 1 \<le> (s + 1) * (s + 1)" using ih(3) by simp
      then have "4 * (n div 4) + 4 \<le> 4 * ((s + 1) * (s + 1))" by simp
      moreover have "n < 4 * (n div 4) + 4"
        by (simp add: algebra_simps)
      ultimately have "n < 4 * ((s + 1) * (s + 1))" by linarith
      then show ?thesis by (simp add: algebra_simps)
    qed
    have eq: "isqrt n = (if (2 * s + 1) * (2 * s + 1) \<le> n then 2 * s + 1 else 2 * s)"
      using False by (subst isqrt.simps) (simp add: Let_def s_def)
    show ?thesis
    proof (cases "(2 * s + 1) * (2 * s + 1) \<le> n")
      case True
      then show ?thesis
        using ih(1) hi by (simp add: eq algebra_simps)
    next
      case False
      then show ?thesis
        using ih(1) lo by (simp add: eq algebra_simps)
    qed
  qed
qed

lemma of_rat_two_powi: "(of_rat (2 powi k) :: real) = 2 powi k"
proof (cases "0 \<le> k")
  case True
  then show ?thesis
    by (simp add: power_int_nonneg_exp of_rat_power)
next
  case False
  then have k: "k = - int (nat (- k))" by simp
  have "(of_rat (2 powi (- int (nat (- k)))) :: real) = 2 powi (- int (nat (- k)))"
    by (simp only: power_int_minus power_int_of_nat of_rat_inverse of_rat_power of_rat_numeral_eq)
  then show ?thesis
    using k by simp
qed

text \<open>
  What the rounded square root gives: an integer times the unit in the last place of the
  root, at most half such a unit away from the real square root.
\<close>

lemma fp_sqrt_spec:
  assumes "fp_sqrt q = Inr r" and "0 < q"
  defines "u \<equiv> ilog2 q div 2 - 52"
  shows "\<exists>k. r = of_int k * 2 powi u \<and> 2 ^ 52 \<le> k \<and> k \<le> 2 ^ 53"
    and "\<bar>real_of_rat r - sqrt (real_of_rat q)\<bar> \<le> 2 powi u / 2"
proof -
  define t where "t = q / 2 powi (2 * u)"
  define n where "n = isqrt \<lfloor>t\<rfloor>"
  define mid :: rat where "mid = (of_int n + 1 / 2) * (of_int n + 1 / 2)"
  define k where "k = (if t < mid then n else if mid < t then n + 1
    else if even n then n else n + 1)"
  have "fp_sqrt q = Inr (of_int k * 2 powi u)"
    using assms(2) by (simp add: fp_sqrt_def Let_def u_def t_def n_def mid_def k_def)
  then have r: "r = of_int k * 2 powi u"
    using assms(1) by simp
  have t0: "0 < t" using assms(2) by (simp add: t_def)
  then have "0 \<le> \<lfloor>t\<rfloor>" by simp
  then have n: "0 \<le> n" "n * n \<le> \<lfloor>t\<rfloor>" "\<lfloor>t\<rfloor> < (n + 1) * (n + 1)"
    using isqrt_bounds [of "\<lfloor>t\<rfloor>"] by (simp_all add: n_def)
  let ?T = "real_of_rat t"
  let ?S = "sqrt ?T"
  have "real_of_int (n * n) \<le> real_of_int \<lfloor>t\<rfloor>"
    using n(2) by (simp only: of_int_le_iff)
  also have "real_of_int \<lfloor>t\<rfloor> \<le> ?T"
    by (metis of_int_floor_le of_rat_less_eq of_rat_of_int_eq)
  finally have "(real_of_int n)\<^sup>2 \<le> ?T" by (simp add: power2_eq_square)
  then have lo: "real_of_int n \<le> ?S" by (rule real_le_rsqrt)
  have "\<lfloor>t\<rfloor> + 1 \<le> (n + 1) * (n + 1)" using n(3) by simp
  then have "real_of_int (\<lfloor>t\<rfloor> + 1) \<le> real_of_int ((n + 1) * (n + 1))"
    by (simp only: of_int_le_iff)
  moreover have "t < of_int (\<lfloor>t\<rfloor> + 1)"
    using floor_correct [of t] by simp
  then have "?T < real_of_int (\<lfloor>t\<rfloor> + 1)"
    by (metis of_rat_less of_rat_of_int_eq)
  ultimately have "?T < (real_of_int n + 1)\<^sup>2" by (simp add: power2_eq_square)
  then have hi: "?S < real_of_int n + 1"
    using n(1) by (intro real_less_lsqrt) simp_all
  have M: "real_of_rat mid = (real_of_int n + 1 / 2)\<^sup>2"
    by (simp add: mid_def of_rat_mult of_rat_add of_rat_divide power2_eq_square)
  have close: "\<bar>real_of_int k - ?S\<bar> \<le> 1 / 2"
  proof (cases "t < mid")
    case True
    then have "?T < (real_of_int n + 1 / 2)\<^sup>2"
      by (metis M of_rat_less)
    then have "?S < real_of_int n + 1 / 2"
      using n(1) by (intro real_less_lsqrt) simp_all
    then show ?thesis using True lo by (simp add: k_def)
  next
    case False
    show ?thesis
    proof (cases "mid < t")
      case True
      then have "(real_of_int n + 1 / 2)\<^sup>2 < ?T"
        by (metis M of_rat_less)
      then have "real_of_int n + 1 / 2 < ?S" by (rule real_less_rsqrt)
      then show ?thesis using True False hi by (simp add: k_def)
    next
      case nt: False
      then have "t = mid" using False by simp
      then have "?T = (real_of_int n + 1 / 2)\<^sup>2" using M by simp
      then have "?S = real_of_int n + 1 / 2" using n(1) by simp
      then show ?thesis using False nt by (simp add: k_def)
    qed
  qed
  define e where "e = ilog2 q"
  have eb: "2 powi e \<le> q" "q < 2 powi (e + 1)"
    using ilog2_bounds [OF assms(2)] by (simp_all add: e_def)
  have u2: "2 * u = 2 * (e div 2) - 104"
    by (simp add: u_def e_def)
  have p: "(0::rat) < 2 powi (2 * u)" by simp
  have "(2::rat) powi (2 * u + 104) \<le> 2 powi e"
    by (rule power_int_increasing) (simp_all add: u2)
  then have "2 powi (2 * u) * 2 ^ 104 \<le> q"
    using eb(1) by (simp add: power_int_add)
  then have "2 ^ 104 \<le> t"
    using p by (simp add: t_def field_simps)
  then have "real_of_rat (2 ^ 104) \<le> ?T"
    by (simp only: of_rat_less_eq)
  then have "(2 ^ 52)\<^sup>2 \<le> ?T"
    by (simp add: of_rat_power)
  then have s_lo: "2 ^ 52 \<le> ?S" by (rule real_le_rsqrt)
  have "(2::rat) powi (e + 1) \<le> 2 powi (2 * u + 106)"
    by (rule power_int_increasing) (simp_all add: u2)
  then have "q < 2 powi (2 * u) * 2 ^ 106"
    using eb(2) by (simp add: power_int_add)
  then have "t < 2 ^ 106"
    using p by (simp add: t_def field_simps)
  then have "?T < real_of_rat (2 ^ 106)"
    by (simp only: of_rat_less)
  then have "?T < (2 ^ 53)\<^sup>2"
    by (simp add: of_rat_power)
  then have s_hi: "?S < 2 ^ 53"
    by (intro real_less_lsqrt) simp_all
  have "2 ^ 52 - 1 < real_of_int k"
    using close s_lo by linarith
  then have "real_of_int (2 ^ 52 - 1) < real_of_int k"
    by simp
  then have "2 ^ 52 - 1 < k"
    by (simp only: of_int_less_iff)
  then have k_lo: "2 ^ 52 \<le> k"
    by simp
  have "real_of_int k < 2 ^ 53 + 1"
    using close s_hi by linarith
  then have "real_of_int k < real_of_int (2 ^ 53 + 1)"
    by simp
  then have "k < 2 ^ 53 + 1"
    by (simp only: of_int_less_iff)
  then have k_hi: "k \<le> 2 ^ 53"
    by simp
  show "\<exists>k. r = of_int k * 2 powi u \<and> 2 ^ 52 \<le> k \<and> k \<le> 2 ^ 53"
    using r k_lo k_hi by blast
  have g: "(0::real) < 2 powi u" by simp
  have "(2::rat) powi (2 * u) = 2 powi (u + u)"
    by (simp only: mult_2)
  also have "\<dots> = 2 powi u * 2 powi u"
    by (rule power_int_add) simp
  finally have "q = t * (2 powi u * 2 powi u)"
    by (simp add: t_def)
  then have "real_of_rat q = ?T * (2 powi u * 2 powi u)"
    by (simp add: of_rat_mult of_rat_two_powi)
  then have "sqrt (real_of_rat q) = ?S * 2 powi u"
    using g by (simp add: real_sqrt_mult)
  moreover have "real_of_rat r = real_of_int k * 2 powi u"
    by (simp add: r of_rat_mult of_rat_two_powi)
  ultimately have "\<bar>real_of_rat r - sqrt (real_of_rat q)\<bar> = \<bar>real_of_int k - ?S\<bar> * 2 powi u"
    using g by (simp add: left_diff_distrib [symmetric] abs_mult)
  also have "\<dots> \<le> 1 / 2 * 2 powi u"
    using close g by (intro mult_right_mono) simp_all
  finally show "\<bar>real_of_rat r - sqrt (real_of_rat q)\<bar> \<le> 2 powi u / 2" by simp
qed

section \<open>Evaluating binary64 arithmetic\<close>

lemma floor_rat_numeral_div:
  "\<lfloor>numeral a / numeral b :: rat\<rfloor> = numeral a div numeral b"
  by (metis floor_divide_of_int_eq of_int_numeral)

lemma ceiling_rat_numeral_div:
  "\<lceil>numeral a / numeral b :: rat\<rceil> = - (- numeral a div numeral b)"
  by (metis ceiling_divide_eq_div of_int_numeral)

lemmas fp_eval = fp_round_def fp_sqrt_def ilog2_def round_half_even_def bit_length.simps
  isqrt.simps floor_rat_numeral_div ceiling_rat_numeral_div
  rounded_def and_then_def to_float_def float_op_def math_sqrt_def val_def float_shown_as_def

lemmas script_eval = int_lit_def float_lit_def var_def binop_def unop_def compare_def
  call_def call_def_def bind_name_def assign_def append_to_def text_item_def value_item_def
  print_line_def if_else_def for_range_def scatter_plot_def

lemma and_then_Inr [simp]: "and_then (Inr v) k = k v"
  by (simp add: and_then_def)

lemma and_then_Inl [simp]: "and_then (Inl e) k = Inl e"
  by (simp add: and_then_def)

lemma and_then_eq_Inr:
  "and_then r k = Inr w \<longleftrightarrow> (\<exists>v. r = Inr v \<and> k v = Inr w)"
  by (cases r) simp_all

section \<open>The cells, one by one\<close>

lemma example1_test_run:
  "example1_test s = Inr (s\<lparr>globals := (globals s)
       (''x'' \<mapsto> Number (float_shown_as (33000000000000003 / 10 ^ 16))),
     printed := printed s @ recorded_example1_test\<rparr>)"
  by (simp add: example1_test_def exact_test_def recorded_example1_test_def script_eval fp_eval)

lemma example1_eps_run:
  assumes "globals s ''x'' = Some (Number (float_shown_as (33000000000000003 / 10 ^ 16)))"
  shows "example1_eps s = Inr (s\<lparr>globals := (globals s)
       (''eps'' \<mapsto> Number (float_shown_as (1 / 10 ^ 12))),
     printed := printed s @ recorded_example1_eps\<rparr>)"
  using assms
  by (simp add: example1_eps_def tolerant_test_def recorded_example1_eps_def script_eval fp_eval)

lemma example2_run:
  "example2 s = Inr (s\<lparr>globals := (globals s)
       (''sqrt'' \<mapsto> Sqrt_function,
        ''delta'' \<mapsto> Number (float_shown_as (1 / 10 ^ 14)),
        ''x'' \<mapsto> Number (float_shown_as 1),
        ''y'' \<mapsto> Number (float_shown_as (10000000000000142 / 10 ^ 16)),
        ''res'' \<mapsto> Number (float_shown_as (14210854715202004 / 10 ^ 16))),
     printed := printed s @ recorded_example2\<rparr>)"
  by (simp add: example2_def recorded_example2_def script_eval fp_eval)

lemmas example3_defs = x1_standard_def x2_standard_def x1_alternate_def x2_alternate_def
  two_a_def minus_b_minus_root_def minus_b_plus_root_def root_of_discriminant_def

lemma example3_standard_run:
  assumes "globals s ''sqrt'' = Some Sqrt_function"
  shows "example3_standard s = Inr (s\<lparr>globals := (globals s)
       (''a'' \<mapsto> Number (float_shown_as (1 / 10 ^ 4)),
        ''b'' \<mapsto> Number (float_shown_as 10000),
        ''c'' \<mapsto> Number (float_shown_as (1 / 10 ^ 4)),
        ''x1'' \<mapsto> Number (float_shown_as (- (9094947017729282 / 10 ^ 24))),
        ''x2'' \<mapsto> Number (float_shown_as (- 100000000))),
     printed := printed s @ recorded_example3_standard\<rparr>)"
  using assms
  by (simp add: example3_standard_def example3_defs recorded_example3_standard_def
      script_eval fp_eval)

lemma example3_standard_unbound:
  assumes "globals s ''sqrt'' = None"
  shows "example3_standard s = Inl (NameError ''sqrt'')"
  using assms
  by (simp add: example3_standard_def example3_defs script_eval fp_eval)

lemma example3_alternate_run:
  assumes "globals s ''sqrt'' = Some Sqrt_function"
    and "globals s ''a'' = Some (Number (float_shown_as (1 / 10 ^ 4)))"
    and "globals s ''b'' = Some (Number (float_shown_as 10000))"
    and "globals s ''c'' = Some (Number (float_shown_as (1 / 10 ^ 4)))"
  shows "example3_alternate s = Inr (s\<lparr>globals := (globals s)
       (''x1'' \<mapsto> Number (float_shown_as (- (1 / 10 ^ 8))),
        ''x2'' \<mapsto> Number (float_shown_as (- (1099511627776 / 10 ^ 4)))),
     printed := printed s @ recorded_example3_alternate\<rparr>)"
  using assms
  by (simp add: example3_alternate_def example3_defs recorded_example3_alternate_def
      script_eval fp_eval)

section \<open>The sweep\<close>

lemma range_sweep: "py_range 0 (- 20) (- 1) =
  Inr [0, - 1, - 2, - 3, - 4, - 5, - 6, - 7, - 8, - 9, - 10, - 11, - 12, - 13, - 14, - 15,
       - 16, - 17, - 18, - 19]"
  by (simp add: py_range_def range_length_def eval_nat_numeral)

lemmas row_eval = sweep_row_def df_err_of_def relative_error_def df_numeric_def df_exact_def
  f_def script_eval fp_eval

lemma sweep_row_0:
  "sweep_row (FloatV 1) (0) =
     Inr (IntV 1, float_shown_as 2,
          float_shown_as 1)"
  by (simp add: row_eval)

lemma sweep_row_1:
  "sweep_row (FloatV 1) (- 1) =
     Inr (float_shown_as (1 / 10), float_shown_as (1100000000000001 / 10 ^ 15),
          float_shown_as (10000000000000098 / 10 ^ 17))"
  by (simp add: row_eval)

lemma sweep_row_2:
  "sweep_row (FloatV 1) (- 2) =
     Inr (float_shown_as (1 / 10 ^ 2), float_shown_as (1010000000000001 / 10 ^ 15),
          float_shown_as (10000000000000897 / 10 ^ 18))"
  by (simp add: row_eval)

lemma sweep_row_3:
  "sweep_row (FloatV 1) (- 3) =
     Inr (float_shown_as (1 / 10 ^ 3), float_shown_as (10009999999998895 / 10 ^ 16),
          float_shown_as (9999999998895337 / 10 ^ 19))"
  by (simp add: row_eval)

lemma sweep_row_4:
  "sweep_row (FloatV 1) (- 4) =
     Inr (float_shown_as (1 / 10 ^ 4), float_shown_as (10000999999998899 / 10 ^ 16),
          float_shown_as (9999999988985486 / 10 ^ 20))"
  by (simp add: row_eval)

lemma sweep_row_5:
  "sweep_row (FloatV 1) (- 5) =
     Inr (float_shown_as (1 / 10 ^ 5), float_shown_as (10000100000065513 / 10 ^ 16),
          float_shown_as (10000006551269536 / 10 ^ 21))"
  by (simp add: row_eval)

lemma sweep_row_6:
  "sweep_row (FloatV 1) (- 6) =
     Inr (float_shown_as (1 / 10 ^ 6), float_shown_as (10000009999177333 / 10 ^ 16),
          float_shown_as (999917733279787 / 10 ^ 21))"
  by (simp add: row_eval)

lemma sweep_row_7:
  "sweep_row (FloatV 1) (- 7) =
     Inr (float_shown_as (1 / 10 ^ 7), float_shown_as (10000001005838672 / 10 ^ 16),
          float_shown_as (10058386723521551 / 10 ^ 23))"
  by (simp add: row_eval)

lemma sweep_row_8:
  "sweep_row (FloatV 1) (- 8) =
     Inr (float_shown_as (1 / 10 ^ 8), float_shown_as (10000000039225287 / 10 ^ 16),
          float_shown_as (3922528746258536 / 10 ^ 24))"
  by (simp add: row_eval)

lemma sweep_row_9:
  "sweep_row (FloatV 1) (- 9) =
     Inr (float_shown_as (1 / 10 ^ 9), float_shown_as (1000000083740371 / 10 ^ 15),
          float_shown_as (8374037108183074 / 10 ^ 23))"
  by (simp add: row_eval)

lemma sweep_row_10:
  "sweep_row (FloatV 1) (- 10) =
     Inr (float_shown_as (1 / 10 ^ 10), float_shown_as (1000000082840371 / 10 ^ 15),
          float_shown_as (8284037100736441 / 10 ^ 23))"
  by (simp add: row_eval)

lemma sweep_row_11:
  "sweep_row (FloatV 1) (- 11) =
     Inr (float_shown_as (1 / 10 ^ 11), float_shown_as (1000000082750371 / 10 ^ 15),
          float_shown_as (8275037099991778 / 10 ^ 23))"
  by (simp add: row_eval)

lemma sweep_row_12:
  "sweep_row (FloatV 1) (- 12) =
     Inr (float_shown_as (1 / 10 ^ 12), float_shown_as (10000889005833413 / 10 ^ 16),
          float_shown_as (8890058334132256 / 10 ^ 20))"
  by (simp add: row_eval)

lemma sweep_row_13:
  "sweep_row (FloatV 1) (- 13) =
     Inr (float_shown_as (1 / 10 ^ 13), float_shown_as (9992007221627407 / 10 ^ 16),
          float_shown_as (7992778372593046 / 10 ^ 19))"
  by (simp add: row_eval)

lemma sweep_row_14:
  "sweep_row (FloatV 1) (- 14) =
     Inr (float_shown_as (1 / 10 ^ 14), float_shown_as (9992007221626509 / 10 ^ 16),
          float_shown_as (7992778373491216 / 10 ^ 19))"
  by (simp add: row_eval)

lemma sweep_row_15:
  "sweep_row (FloatV 1) (- 15) =
     Inr (float_shown_as (1 / 10 ^ 15), float_shown_as (11102230246251577 / 10 ^ 16),
          float_shown_as (11022302462515765 / 10 ^ 17))"
  by (simp add: row_eval)

lemma sweep_row_16:
  "sweep_row (FloatV 1) (- 16) =
     Inr (float_shown_as (1 / 10 ^ 16), float_shown_as 0,
          float_shown_as 1)"
  by (simp add: row_eval)

lemma sweep_row_17:
  "sweep_row (FloatV 1) (- 17) =
     Inr (float_shown_as (1 / 10 ^ 17), float_shown_as 0,
          float_shown_as 1)"
  by (simp add: row_eval)

lemma sweep_row_18:
  "sweep_row (FloatV 1) (- 18) =
     Inr (float_shown_as (1 / 10 ^ 18), float_shown_as 0,
          float_shown_as 1)"
  by (simp add: row_eval)

lemma sweep_row_19:
  "sweep_row (FloatV 1) (- 19) =
     Inr (float_shown_as (1 / 10 ^ 19), float_shown_as 0,
          float_shown_as 1)"
  by (simp add: row_eval)

lemmas sweep_row_values =
  sweep_row_0 sweep_row_1 sweep_row_2 sweep_row_3 sweep_row_4
  sweep_row_5 sweep_row_6 sweep_row_7 sweep_row_8 sweep_row_9
  sweep_row_10 sweep_row_11 sweep_row_12 sweep_row_13 sweep_row_14
  sweep_row_15 sweep_row_16 sweep_row_17 sweep_row_18 sweep_row_19

lemma sweep_rows_recorded:
  "sweep_rows (FloatV 1)
     [0, - 1, - 2, - 3, - 4, - 5, - 6, - 7, - 8, - 9, - 10, - 11, - 12, - 13, - 14, - 15,
      - 16, - 17, - 18, - 19] = Inr recorded_sweep"
  by (simp add: sweep_row_values recorded_sweep_def)

lemma block_append: "block (cs @ ds) s = and_then (block cs s) (block ds)"
  by (induction cs arbitrary: s) (simp_all add: and_then_def split: sum.splits)

lemma sweep_row_parts:
  assumes "sweep_row x0 k = Inr (h, d, r)"
  shows "py_pow (IntV 10) (IntV k) = Inr h" and "df_numeric x0 h = Inr d"
    and "df_err_of x0 d = Inr r"
  using assms by (auto simp: sweep_row_def and_then_eq_Inr)

lemma df_err_of_parts:
  assumes "df_err_of x0 d = Inr r"
  obtains e t where "df_exact x0 = Inr e" and "py_sub d e = Inr t"
    and "py_truediv (py_abs t) e = Inr r"
  using assms by (auto simp: df_err_of_def relative_error_def and_then_eq_Inr)

text \<open>
  One pass of the loop body. The body calls \<^verbatim>\<open>df_numeric(x0,h)\<close> twice and
  \<^verbatim>\<open>df_exact(x0)\<close> twice; a function of the model gives the same value at each call, so
  the pass stores the row that \<open>sweep_row\<close> computes with one call of each.
\<close>

lemma sweep_body_run:
  assumes row: "sweep_row x0 k = Inr (h, d, r)"
    and "globals s ''df_numeric'' = Some (User_function ''df_numeric'')"
    and "globals s ''df_exact'' = Some (User_function ''df_exact'')"
    and "globals s ''x0'' = Some (Number x0)"
    and "globals s ''i'' = Some (Number (IntV k))"
    and "globals s ''arr_h'' = Some (List hs)"
    and "globals s ''arr_df'' = Some (List ds)"
    and "globals s ''arr_err'' = Some (List es)"
  shows "block sweep_body s = Inr (s\<lparr>globals := (globals s)
       (''h'' \<mapsto> Number h, ''df_val'' \<mapsto> Number d, ''df_err'' \<mapsto> Number r,
        ''arr_h'' \<mapsto> List (hs @ [h]), ''arr_df'' \<mapsto> List (ds @ [d]),
        ''arr_err'' \<mapsto> List (es @ [r])),
     printed := printed s @ [Line [Val h, Val d, Val r]]\<rparr>)"
proof -
  note p = sweep_row_parts [OF row]
  from p(3) obtain e t where e: "df_exact x0 = Inr e" and t: "py_sub d e = Inr t"
    and q: "py_truediv (py_abs t) e = Inr r"
    by (rule df_err_of_parts)
  show ?thesis
    using assms(2-) p(1,2) e t q
    by (simp add: sweep_body_def script_eval)
qed

lemma iterate_sweep:
  assumes "sweep_rows x0 ks = Inr rs"
    and "globals s ''df_numeric'' = Some (User_function ''df_numeric'')"
    and "globals s ''df_exact'' = Some (User_function ''df_exact'')"
    and "globals s ''x0'' = Some (Number x0)"
    and "globals s ''arr_h'' = Some (List hs)"
    and "globals s ''arr_df'' = Some (List ds)"
    and "globals s ''arr_err'' = Some (List es)"
  shows "\<exists>s'. iterate ''i'' ks sweep_body s = Inr s'
       \<and> printed s' = printed s @ map row_line rs
       \<and> globals s' ''arr_h'' = Some (List (hs @ map fst rs))
       \<and> globals s' ''arr_df'' = Some (List (ds @ map (fst \<circ> snd) rs))
       \<and> globals s' ''arr_err'' = Some (List (es @ map (snd \<circ> snd) rs))
       \<and> (\<forall>x. x \<notin> loop_names \<longrightarrow> globals s' x = globals s x)"
  using assms
proof (induction ks arbitrary: s rs hs ds es)
  case Nil
  then show ?case by simp
next
  case (Cons k ks)
  from Cons.prems(1) obtain r rs' where r: "sweep_row x0 k = Inr r"
    and rs': "sweep_rows x0 ks = Inr rs'" and rs: "rs = r # rs'"
    by (auto simp: and_then_eq_Inr)
  obtain h d e where hde: "r = (h, d, e)"
    by (cases r) auto
  let ?s1 = "s\<lparr>globals := (globals s)(''i'' \<mapsto> Number (IntV k))\<rparr>"
  let ?s2 = "?s1\<lparr>globals := (globals ?s1)
       (''h'' \<mapsto> Number h, ''df_val'' \<mapsto> Number d, ''df_err'' \<mapsto> Number e,
        ''arr_h'' \<mapsto> List (hs @ [h]), ''arr_df'' \<mapsto> List (ds @ [d]),
        ''arr_err'' \<mapsto> List (es @ [e])),
     printed := printed ?s1 @ [Line [Val h, Val d, Val e]]\<rparr>"
  have body: "block sweep_body ?s1 = Inr ?s2"
    using Cons.prems(2-) r [unfolded hde]
    by (intro sweep_body_run [where ?x0.0 = x0 and k = k]) simp_all
  have step: "iterate ''i'' (k # ks) sweep_body s = iterate ''i'' ks sweep_body ?s2"
    using body by (simp add: bind_name_def)
  have "\<exists>s'. iterate ''i'' ks sweep_body ?s2 = Inr s'
       \<and> printed s' = printed ?s2 @ map row_line rs'
       \<and> globals s' ''arr_h'' = Some (List ((hs @ [h]) @ map fst rs'))
       \<and> globals s' ''arr_df'' = Some (List ((ds @ [d]) @ map (fst \<circ> snd) rs'))
       \<and> globals s' ''arr_err'' = Some (List ((es @ [e]) @ map (snd \<circ> snd) rs'))
       \<and> (\<forall>x. x \<notin> loop_names \<longrightarrow> globals s' x = globals ?s2 x)"
    using Cons.prems(2-) by (intro Cons.IH [OF rs']) simp_all
  then obtain s' where s': "iterate ''i'' ks sweep_body ?s2 = Inr s'"
    and p: "printed s' = printed ?s2 @ map row_line rs'"
    and a: "globals s' ''arr_h'' = Some (List ((hs @ [h]) @ map fst rs'))"
      "globals s' ''arr_df'' = Some (List ((ds @ [d]) @ map (fst \<circ> snd) rs'))"
      "globals s' ''arr_err'' = Some (List ((es @ [e]) @ map (snd \<circ> snd) rs'))"
    and u: "\<forall>x. x \<notin> loop_names \<longrightarrow> globals s' x = globals ?s2 x"
    by blast
  have "\<forall>x. x \<notin> loop_names \<longrightarrow> globals s' x = globals s x"
    using u by (simp add: loop_names_def)
  then show ?case
    using step s' p a by (simp add: rs hde row_line_def)
qed

lemma rounded_one: "rounded 1 = Inr (FloatV 1)"
  by (simp add: fp_eval)

lemma sweep_setup_run:
  "block sweep_setup s = Inr (s\<lparr>globals := (globals s)
       (''f'' \<mapsto> User_function ''f'',
        ''df_exact'' \<mapsto> User_function ''df_exact'',
        ''df_numeric'' \<mapsto> User_function ''df_numeric'',
        ''x0'' \<mapsto> Number (FloatV 1),
        ''arr_h'' \<mapsto> List [], ''arr_df'' \<mapsto> List [], ''arr_err'' \<mapsto> List []),
     printed := printed s @ [recorded_header]\<rparr>)"
  by (simp add: sweep_setup_def recorded_header_def script_eval rounded_one)

lemma sweep_rows_take:
  assumes "sweep_rows x0 ks = Inr rs"
  shows "sweep_rows x0 (take n ks) = Inr (take n rs)"
  using assms
proof (induction ks arbitrary: n rs)
  case Nil
  then show ?case by simp
next
  case (Cons k ks)
  then show ?case
    by (cases n) (auto simp: and_then_eq_Inr)
qed

lemma sweep_rows_length:
  assumes "sweep_rows x0 ks = Inr rs"
  shows "length rs = length ks"
  using assms by (induction ks arbitrary: rs) (auto simp: and_then_eq_Inr)

lemma sweep_rows_nth:
  assumes "sweep_rows x0 ks = Inr rs" and "n < length ks"
  shows "sweep_row x0 (ks ! n) = Inr (rs ! n)"
  using assms
proof (induction ks arbitrary: n rs)
  case Nil
  then show ?case by simp
next
  case (Cons k ks)
  then show ?case
    by (cases n) (auto simp: and_then_eq_Inr)
qed

section \<open>Whole examples\<close>

lemma and_then_block_Nil [simp]: "and_then r (block []) = r"
  by (cases r) simp_all

lemma example1_run:
  "block example1 s = Inr (s\<lparr>globals := (globals s)
       (''x'' \<mapsto> Number (float_shown_as (33000000000000003 / 10 ^ 16)),
        ''eps'' \<mapsto> Number (float_shown_as (1 / 10 ^ 12))),
     printed := printed s @ recorded_example1_test @ recorded_example1_eps\<rparr>)"
  by (simp add: example1_def example1_test_run example1_eps_run)

lemma example3_run:
  assumes "globals s ''sqrt'' = Some Sqrt_function"
  shows "block example3 s = Inr (s\<lparr>globals := (globals s)
       (''a'' \<mapsto> Number (float_shown_as (1 / 10 ^ 4)),
        ''b'' \<mapsto> Number (float_shown_as 10000),
        ''c'' \<mapsto> Number (float_shown_as (1 / 10 ^ 4)),
        ''x1'' \<mapsto> Number (float_shown_as (- (1 / 10 ^ 8))),
        ''x2'' \<mapsto> Number (float_shown_as (- (1099511627776 / 10 ^ 4)))),
     printed := printed s @ recorded_example3_standard @ recorded_example3_alternate\<rparr>)"
  using assms by (simp add: example3_def example3_standard_run example3_alternate_run)

lemma example3_unbound:
  assumes "globals s ''sqrt'' = None"
  shows "block example3 s = Inl (NameError ''sqrt'')"
  using assms by (simp add: example3_def example3_standard_unbound)

lemma example4_sweep_result:
  "\<exists>s'. example4_sweep s = Inr s'
       \<and> printed s' = printed s @ recorded_header # map row_line recorded_sweep
       \<and> globals s' ''arr_h'' = Some (List (map fst recorded_sweep))
       \<and> globals s' ''arr_df'' = Some (List (map (fst \<circ> snd) recorded_sweep))
       \<and> globals s' ''arr_err'' = Some (List (map (snd \<circ> snd) recorded_sweep))
       \<and> globals s' ''x0'' = Some (Number (FloatV 1))
       \<and> globals s' ''df_exact'' = Some (User_function ''df_exact'')
       \<and> (\<forall>x. x \<notin> loop_names \<union> {''f'', ''df_exact'', ''df_numeric'', ''x0''}
              \<longrightarrow> globals s' x = globals s x)"
proof -
  let ?s0 = "s\<lparr>globals := (globals s)
       (''f'' \<mapsto> User_function ''f'',
        ''df_exact'' \<mapsto> User_function ''df_exact'',
        ''df_numeric'' \<mapsto> User_function ''df_numeric'',
        ''x0'' \<mapsto> Number (FloatV 1),
        ''arr_h'' \<mapsto> List [], ''arr_df'' \<mapsto> List [], ''arr_err'' \<mapsto> List []),
     printed := printed s @ [recorded_header]\<rparr>"
  let ?ks = "[0, - 1, - 2, - 3, - 4, - 5, - 6, - 7, - 8, - 9, - 10, - 11, - 12, - 13, - 14, - 15,
      - 16, - 17, - 18, - 19] :: int list"
  have run: "example4_sweep s = iterate ''i'' ?ks sweep_body ?s0"
    by (simp add: example4_sweep_def block_append sweep_setup_run for_range_def range_sweep)
  have "\<exists>s'. iterate ''i'' ?ks sweep_body ?s0 = Inr s'
       \<and> printed s' = printed ?s0 @ map row_line recorded_sweep
       \<and> globals s' ''arr_h'' = Some (List ([] @ map fst recorded_sweep))
       \<and> globals s' ''arr_df'' = Some (List ([] @ map (fst \<circ> snd) recorded_sweep))
       \<and> globals s' ''arr_err'' = Some (List ([] @ map (snd \<circ> snd) recorded_sweep))
       \<and> (\<forall>x. x \<notin> loop_names \<longrightarrow> globals s' x = globals ?s0 x)"
    by (intro iterate_sweep [OF sweep_rows_recorded]) simp_all
  then obtain s' where s': "iterate ''i'' ?ks sweep_body ?s0 = Inr s'"
    and p: "printed s' = printed ?s0 @ map row_line recorded_sweep"
    and a: "globals s' ''arr_h'' = Some (List ([] @ map fst recorded_sweep))"
      "globals s' ''arr_df'' = Some (List ([] @ map (fst \<circ> snd) recorded_sweep))"
      "globals s' ''arr_err'' = Some (List ([] @ map (snd \<circ> snd) recorded_sweep))"
    and u: "\<forall>x. x \<notin> loop_names \<longrightarrow> globals s' x = globals ?s0 x"
    by blast
  have x0: "globals s' ''x0'' = Some (Number (FloatV 1))"
    and dfe: "globals s' ''df_exact'' = Some (User_function ''df_exact'')"
    using u by (simp_all add: loop_names_def)
  have "\<forall>x. x \<notin> loop_names \<union> {''f'', ''df_exact'', ''df_numeric'', ''x0''}
      \<longrightarrow> globals s' x = globals s x"
    using u by (simp add: loop_names_def)
  then show ?thesis
    using run s' p a x0 dfe by simp
qed

lemma example4_plot_run:
  assumes "globals s ''arr_h'' = Some (List hs)" and "globals s ''arr_err'' = Some (List es)"
  shows "example4_plot s = Inr (s\<lparr>globals := (globals s)(''plt'' \<mapsto> Opaque, ''params'' \<mapsto> Opaque),
     printed := printed s @ [Scatter hs es]\<rparr>)"
  using assms by (simp add: example4_plot_def script_eval)

lemma example4_result:
  "\<exists>s'. block example4 s = Inr s'
       \<and> printed s' = printed s @ recorded_example4
       \<and> globals s' ''arr_h'' = Some (List (map fst recorded_sweep))
       \<and> globals s' ''x0'' = Some (Number (FloatV 1))
       \<and> globals s' ''df_exact'' = Some (User_function ''df_exact'')
       \<and> (\<forall>x. x \<notin> loop_names \<union> {''f'', ''df_exact'', ''df_numeric'', ''x0'', ''plt'', ''params''}
              \<longrightarrow> globals s' x = globals s x)"
proof -
  obtain s1 where s1: "example4_sweep s = Inr s1"
    and p: "printed s1 = printed s @ recorded_header # map row_line recorded_sweep"
    and a: "globals s1 ''arr_h'' = Some (List (map fst recorded_sweep))"
      "globals s1 ''arr_err'' = Some (List (map (snd \<circ> snd) recorded_sweep))"
      "globals s1 ''x0'' = Some (Number (FloatV 1))"
      "globals s1 ''df_exact'' = Some (User_function ''df_exact'')"
    and u: "\<forall>x. x \<notin> loop_names \<union> {''f'', ''df_exact'', ''df_numeric'', ''x0''}
              \<longrightarrow> globals s1 x = globals s x"
    using example4_sweep_result [of s] by blast
  have "block example4 s = example4_plot s1"
    using s1 by (simp add: example4_def)
  then show ?thesis
    using example4_plot_run [OF a(1,2)] p a u
    by (simp add: recorded_example4_def loop_names_def)
qed

lemma notebook_run:
  "\<exists>s'. block notebook s = Inr s'
       \<and> printed s' = printed s @ recorded_example1_test @ recorded_example1_eps
            @ recorded_example2 @ recorded_example3_standard @ recorded_example3_alternate
            @ recorded_example4
       \<and> globals s' ''delta'' = Some (Number (float_shown_as (1 / 10 ^ 14)))
       \<and> globals s' ''a'' = Some (Number (float_shown_as (1 / 10 ^ 4)))
       \<and> globals s' ''b'' = Some (Number (float_shown_as 10000))
       \<and> globals s' ''c'' = Some (Number (float_shown_as (1 / 10 ^ 4)))
       \<and> globals s' ''sqrt'' = Some Sqrt_function
       \<and> globals s' ''x0'' = Some (Number (FloatV 1))
       \<and> globals s' ''df_exact'' = Some (User_function ''df_exact'')
       \<and> globals s' ''arr_h'' = Some (List (map fst recorded_sweep))"
proof -
  let ?s3 = "s\<lparr>globals := (globals s)
       (''eps'' \<mapsto> Number (float_shown_as (1 / 10 ^ 12)),
        ''sqrt'' \<mapsto> Sqrt_function,
        ''delta'' \<mapsto> Number (float_shown_as (1 / 10 ^ 14)),
        ''x'' \<mapsto> Number (float_shown_as 1),
        ''y'' \<mapsto> Number (float_shown_as (10000000000000142 / 10 ^ 16)),
        ''res'' \<mapsto> Number (float_shown_as (14210854715202004 / 10 ^ 16)),
        ''a'' \<mapsto> Number (float_shown_as (1 / 10 ^ 4)),
        ''b'' \<mapsto> Number (float_shown_as 10000),
        ''c'' \<mapsto> Number (float_shown_as (1 / 10 ^ 4)),
        ''x1'' \<mapsto> Number (float_shown_as (- (1 / 10 ^ 8))),
        ''x2'' \<mapsto> Number (float_shown_as (- (1099511627776 / 10 ^ 4)))),
     printed := printed s @ recorded_example1_test @ recorded_example1_eps
            @ recorded_example2 @ recorded_example3_standard @ recorded_example3_alternate\<rparr>"
  have "block (example1 @ [example2] @ example3) s = Inr ?s3"
    by (simp add: block_append example1_run example2_run example3_run)
  then have run: "block notebook s = block example4 ?s3"
    by (simp add: notebook_def block_append [of "example1 @ [example2] @ example3", simplified])
  obtain s' where s': "block example4 ?s3 = Inr s'"
    and p: "printed s' = printed ?s3 @ recorded_example4"
    and a: "globals s' ''arr_h'' = Some (List (map fst recorded_sweep))"
      "globals s' ''x0'' = Some (Number (FloatV 1))"
      "globals s' ''df_exact'' = Some (User_function ''df_exact'')"
    and u: "\<forall>x. x \<notin> loop_names \<union> {''f'', ''df_exact'', ''df_numeric'', ''x0'', ''plt'', ''params''}
              \<longrightarrow> globals s' x = globals ?s3 x"
    using example4_result [of ?s3] by blast
  have "globals s' ''delta'' = Some (Number (float_shown_as (1 / 10 ^ 14)))"
    "globals s' ''a'' = Some (Number (float_shown_as (1 / 10 ^ 4)))"
    "globals s' ''b'' = Some (Number (float_shown_as 10000))"
    "globals s' ''c'' = Some (Number (float_shown_as (1 / 10 ^ 4)))"
    "globals s' ''sqrt'' = Some Sqrt_function"
    using u by (simp_all add: loop_names_def)
  then show ?thesis
    using run s' p a by simp
qed

text \<open>
  From every starting state the notebook prints, line by line and number by number, the
  output that is stored in the notebook file.
\<close>

lemma notebook_prints_recorded_output:
  "printed_by notebook s = Inr (recorded_example1_test @ recorded_example1_eps
     @ recorded_example2 @ recorded_example3_standard @ recorded_example3_alternate
     @ recorded_example4)"
proof -
  obtain s' where "block notebook s = Inr s'"
    and "printed s' = printed s @ recorded_example1_test @ recorded_example1_eps
       @ recorded_example2 @ recorded_example3_standard @ recorded_example3_alternate
       @ recorded_example4"
    using notebook_run [of s] by blast
  then show ?thesis
    by (simp add: printed_by_def)
qed

lemma recorded_sweep_h: "map fst recorded_sweep =
    [IntV 1, float_shown_as (1 / 10), float_shown_as (1 / 10\<^sup>2), float_shown_as (1 / 10 ^ 3),
     float_shown_as (1 / 10 ^ 4), float_shown_as (1 / 10 ^ 5), float_shown_as (1 / 10 ^ 6),
     float_shown_as (1 / 10 ^ 7), float_shown_as (1 / 10 ^ 8), float_shown_as (1 / 10 ^ 9),
     float_shown_as (1 / 10 ^ 10), float_shown_as (1 / 10 ^ 11), float_shown_as (1 / 10 ^ 12),
     float_shown_as (1 / 10 ^ 13), float_shown_as (1 / 10 ^ 14), float_shown_as (1 / 10 ^ 15),
     float_shown_as (1 / 10 ^ 16), float_shown_as (1 / 10 ^ 17), float_shown_as (1 / 10 ^ 18),
     float_shown_as (1 / 10 ^ 19)]"
  by (simp add: recorded_sweep_def)

lemma sweep_h_values: "map fst recorded_sweep =
    [IntV 1,
     FloatV (3602879701896397 / 2 ^ 55),
     FloatV (5764607523034235 / 2 ^ 59),
     FloatV (1152921504606847 / 2 ^ 60),
     FloatV (7378697629483821 / 2 ^ 66),
     FloatV (5902958103587057 / 2 ^ 69),
     FloatV (4722366482869645 / 2 ^ 72),
     FloatV (944473296573929 / 2 ^ 73),
     FloatV (3022314549036573 / 2 ^ 78),
     FloatV (4835703278458517 / 2 ^ 82),
     FloatV (7737125245533627 / 2 ^ 86),
     FloatV (6189700196426901 / 2 ^ 89),
     FloatV (4951760157141521 / 2 ^ 92),
     FloatV (3961408125713217 / 2 ^ 95),
     FloatV (6338253001141147 / 2 ^ 99),
     FloatV (2535301200456459 / 2 ^ 101),
     FloatV (2028240960365167 / 2 ^ 104),
     FloatV (6490371073168535 / 2 ^ 109),
     FloatV (1298074214633707 / 2 ^ 110),
     FloatV (2076918743413931 / 2 ^ 114)]"
  unfolding recorded_sweep_h by (simp add: fp_eval)

lemma length_recorded_sweep: "length recorded_sweep = 20"
  by (simp add: recorded_sweep_def)

lemma sweep_rows_pow:
  assumes "sweep_rows x0 ks = Inr rs"
  shows "map Inr (map fst rs) = map (\<lambda>k. py_pow (IntV 10) (IntV k)) ks"
  using assms
proof (induction ks arbitrary: rs)
  case Nil
  then show ?case by simp
next
  case (Cons k ks)
  from Cons.prems obtain r rs' where r: "sweep_row x0 k = Inr r"
    and rs': "sweep_rows x0 ks = Inr rs'" and rs: "rs = r # rs'"
    by (auto simp: and_then_eq_Inr)
  obtain h d e where hde: "r = (h, d, e)"
    by (cases r) auto
  show ?case
    using Cons.IH [OF rs'] sweep_row_parts(1) [OF r [unfolded hde]] by (simp add: rs hde)
qed

text \<open>
  C5. Example 1 in binary64: \<^verbatim>\<open>x = 1.1 + 2.2\<close> is the float \<open>7430939385161319 / 2\<^sup>5\<^sup>1\<close>, one
  unit in the last place above the float \<open>7430939385161318 / 2\<^sup>5\<^sup>1\<close> of the literal
  \<^verbatim>\<open>3.3\<close>. So the test \<^verbatim>\<open>x == 3.3\<close> is False and the first cell prints
  \<^verbatim>\<open>x == 3.3 is False\<close>, while \<^verbatim>\<open>abs(x-3.3) < eps\<close> with \<^verbatim>\<open>eps = 1.e-12\<close> is True and the
  second cell prints \<^verbatim>\<open>... is True\<close>. This holds from every starting state \<open>s\<close>.
\<close>

theorem float_equality_tests:
  "\<exists>s'. block example1 s = Inr s'
     \<and> globals s' ''x'' = Some (Number (FloatV (7430939385161319 / 2 ^ 51)))
     \<and> float_lit (33 / 10) (globals s') = Inr (FloatV (7430939385161318 / 2 ^ 51))
     \<and> globals s' ''eps'' = Some (Number (FloatV (4951760157141521 / 2 ^ 92)))
     \<and> exact_test (globals s') = Inr False
     \<and> tolerant_test (globals s') = Inr True
     \<and> printed_by example1 s = Inr
          [Line [Str ''x = '', Val (FloatV (7430939385161319 / 2 ^ 51))],
           Line [Val (FloatV (7430939385161318 / 2 ^ 51))],
           Line [Str ''x == 3.3 is False''],
           Line [Str ''x = '', Val (FloatV (7430939385161319 / 2 ^ 51))],
           Line [Str ''x == 3.3 to a precision of'', Val (FloatV (4951760157141521 / 2 ^ 92)),
                 Str ''is True'']]"
proof -
  have x: "float_shown_as (33000000000000003 / 10 ^ 16) = FloatV (7430939385161319 / 2 ^ 51)"
    by (simp add: fp_eval)
  have e: "float_shown_as (1 / 10 ^ 12) = FloatV (4951760157141521 / 2 ^ 92)"
    by (simp add: fp_eval)
  have l: "float_shown_as (33 / 10) = FloatV (7430939385161318 / 2 ^ 51)"
    by (simp add: fp_eval)
  have r: "rounded (33 / 10) = Inr (FloatV (7430939385161318 / 2 ^ 51))"
    by (simp add: fp_eval)
  let ?s' = "s\<lparr>globals := (globals s)
       (''x'' \<mapsto> Number (FloatV (7430939385161319 / 2 ^ 51)),
        ''eps'' \<mapsto> Number (FloatV (4951760157141521 / 2 ^ 92))),
     printed := printed s @ recorded_example1_test @ recorded_example1_eps\<rparr>"
  have run: "block example1 s = Inr ?s'"
    by (simp only: example1_run x e)
  have "exact_test (globals ?s') = Inr False"
    by (simp add: exact_test_def script_eval fp_eval)
  moreover have "tolerant_test (globals ?s') = Inr True"
    by (simp add: tolerant_test_def script_eval fp_eval)
  moreover have "printed_by example1 s = Inr (recorded_example1_test @ recorded_example1_eps)"
    using run by (simp add: printed_by_def)
  ultimately show ?thesis
    using run
    by (simp add: float_lit_def r recorded_example1_test_def recorded_example1_eps_def
        x [simplified] e [simplified] l [simplified])
qed

section \<open>Which examples are self-contained\<close>

lemma printed_by_example1: "printed_by example1 s = Inr (recorded_example1_test @ recorded_example1_eps)"
  by (simp add: printed_by_def example1_run)

lemma printed_by_example2: "printed_by [example2] s = Inr recorded_example2"
  by (simp add: printed_by_def example2_run)

lemma printed_by_example3:
  assumes "globals s ''sqrt'' = Some Sqrt_function"
  shows "printed_by example3 s = Inr (recorded_example3_standard @ recorded_example3_alternate)"
  using assms by (simp add: printed_by_def example3_run)

lemma printed_by_example3_unbound:
  assumes "globals s ''sqrt'' = None"
  shows "printed_by example3 s = Inl (NameError ''sqrt'')"
  using assms by (simp add: printed_by_def example3_unbound)

lemma printed_by_example4: "printed_by example4 s = Inr recorded_example4"
proof -
  obtain s' where "block example4 s = Inr s'" and "printed s' = printed s @ recorded_example4"
    using example4_result [of s] by blast
  then show ?thesis
    by (simp add: printed_by_def)
qed

lemma before_example3:
  "\<exists>s. block (example1 @ [example2]) fresh = Inr s \<and> globals s ''sqrt'' = Some Sqrt_function"
  by (simp add: block_append example1_run example2_run)

lemma before_example4: "\<exists>s. block (example1 @ [example2] @ example3) fresh = Inr s"
  by (simp add: block_append example1_run example2_run example3_run)

text \<open>
  C7, as stated, fails for Example 3: its cells call \<^verbatim>\<open>sqrt\<close>, which only the cell of
  Example 2 imports. Run alone in a new process, Example 3 stops with \<^verbatim>\<open>NameError\<close> at its
  first call of \<^verbatim>\<open>sqrt\<close> and prints nothing; in the script it prints its four lines.
\<close>

theorem example3_not_self_contained:
  "\<not> self_contained (example1 @ [example2]) example3"
proof -
  obtain s where s: "block (example1 @ [example2]) fresh = Inr s"
    and q: "globals s ''sqrt'' = Some Sqrt_function"
    using before_example3 by blast
  have "printed_by example3 fresh = Inl (NameError ''sqrt'')"
    by (rule printed_by_example3_unbound) (simp add: fresh_def)
  moreover have "and_then (block (example1 @ [example2]) fresh) (printed_by example3)
      = Inr (recorded_example3_standard @ recorded_example3_alternate)"
    using s printed_by_example3 [OF q] by simp
  ultimately show ?thesis
    by (simp add: self_contained_def)
qed

text \<open>
  C7, amended. Examples 1, 2 and 4 are self-contained: run alone in a new process, each
  prints what it prints in the script. Example 3 alone stops with \<^verbatim>\<open>NameError\<close> for
  \<^verbatim>\<open>sqrt\<close>; with the import \<^verbatim>\<open>from math import sqrt\<close> of Example 2 put before its cells, it
  is self-contained too and prints what it prints in the script.
\<close>

theorem examples_self_contained_but_third:
  "self_contained [] example1
   \<and> self_contained example1 [example2]
   \<and> self_contained (example1 @ [example2] @ example3) example4
   \<and> printed_by example3 fresh = Inl (NameError ''sqrt'')
   \<and> self_contained (example1 @ [example2]) (bind_name ''sqrt'' Sqrt_function # example3)
   \<and> printed_by (bind_name ''sqrt'' Sqrt_function # example3) fresh
       = and_then (block (example1 @ [example2]) fresh) (printed_by example3)"
proof -
  have e1: "self_contained [] example1"
    by (simp add: self_contained_def)
  have e2: "self_contained example1 [example2]"
    by (simp add: self_contained_def example1_run printed_by_example2)
  obtain s3 where s3: "block (example1 @ [example2] @ example3) fresh = Inr s3"
    using before_example4 by blast
  have e4: "self_contained (example1 @ [example2] @ example3) example4"
    using s3 by (simp add: self_contained_def printed_by_example4)
  have e3: "printed_by example3 fresh = Inl (NameError ''sqrt'')"
    by (rule printed_by_example3_unbound) (simp add: fresh_def)
  obtain s where s: "block (example1 @ [example2]) fresh = Inr s"
    and q: "globals s ''sqrt'' = Some Sqrt_function"
    using before_example3 by blast
  have with_import: "printed_by (bind_name ''sqrt'' Sqrt_function # example3) t
      = Inr (recorded_example3_standard @ recorded_example3_alternate)" for t
    by (simp add: printed_by_def bind_name_def example3_run)
  have in_script: "and_then (block (example1 @ [example2]) fresh) (printed_by example3)
      = Inr (recorded_example3_standard @ recorded_example3_alternate)"
    using s printed_by_example3 [OF q] by simp
  have e3': "self_contained (example1 @ [example2]) (bind_name ''sqrt'' Sqrt_function # example3)"
    using s by (simp add: self_contained_def with_import)
  show ?thesis
    using e1 e2 e4 e3 e3' with_import [of fresh] in_script by simp
qed

section \<open>No division by zero\<close>

lemma denominators_values:
  assumes "g ''delta'' = Some (Number (float_shown_as (1 / 10 ^ 14)))"
    and "g ''a'' = Some (Number (float_shown_as (1 / 10 ^ 4)))"
    and "g ''b'' = Some (Number (float_shown_as 10000))"
    and "g ''c'' = Some (Number (float_shown_as (1 / 10 ^ 4)))"
    and "g ''sqrt'' = Some Sqrt_function"
    and "g ''x0'' = Some (Number (FloatV 1))"
    and "g ''df_exact'' = Some (User_function ''df_exact'')"
  shows "map (\<lambda>e. e g) denominators =
    [Inr (FloatV (6338253001141147 / 2 ^ 99)),
     Inr (FloatV (7378697629483821 / 2 ^ 65)),
     Inr (FloatV (- 20000)),
     Inr (FloatV (- (1 / 2 ^ 39))),
     Inr (FloatV 1)]"
  using assms
  by (simp add: denominators_def example3_defs df_exact_def script_eval fp_eval)

text \<open>
  C8. The notebook, run in a new process, ends without an exception: the run is \<open>Inr\<close>,
  so no \<^verbatim>\<open>/\<close> met a zero divisor (and no other error arose). The divisors are
  \<^verbatim>\<open>delta\<close> \<open>= 6338253001141147 / 2\<^sup>9\<^sup>9\<close>, \<^verbatim>\<open>2.*a\<close> \<open>= 7378697629483821 / 2\<^sup>6\<^sup>5\<close>,
  \<^verbatim>\<open>-b - sqrt(...)\<close> \<open>= -20000\<close>, \<^verbatim>\<open>-b + sqrt(...)\<close> \<open>= -1 / 2\<^sup>3\<^sup>9\<close>, \<^verbatim>\<open>df_exact(x0)\<close> \<open>= 1\<close>
  and the twenty values of \<^verbatim>\<open>h\<close> kept in \<^verbatim>\<open>arr_h\<close>; none of them is zero.
\<close>

theorem no_division_by_zero:
  "\<exists>s. block notebook fresh = Inr s
     \<and> map (\<lambda>e. e (globals s)) denominators =
          [Inr (FloatV (6338253001141147 / 2 ^ 99)),
           Inr (FloatV (7378697629483821 / 2 ^ 65)),
           Inr (FloatV (- 20000)),
           Inr (FloatV (- (1 / 2 ^ 39))),
           Inr (FloatV 1)]
     \<and> 0 \<notin> val ` {FloatV (6338253001141147 / 2 ^ 99),
           FloatV (7378697629483821 / 2 ^ 65),
           FloatV (- 20000),
           FloatV (- (1 / 2 ^ 39)),
           FloatV 1}
     \<and> globals s ''arr_h'' = Some (List (map fst recorded_sweep))
     \<and> length (map fst recorded_sweep) = 20
     \<and> 0 \<notin> val ` set (map fst recorded_sweep)"
proof -
  obtain s where s: "block notebook fresh = Inr s"
    and g: "globals s ''delta'' = Some (Number (float_shown_as (1 / 10 ^ 14)))"
      "globals s ''a'' = Some (Number (float_shown_as (1 / 10 ^ 4)))"
      "globals s ''b'' = Some (Number (float_shown_as 10000))"
      "globals s ''c'' = Some (Number (float_shown_as (1 / 10 ^ 4)))"
      "globals s ''sqrt'' = Some Sqrt_function"
      "globals s ''x0'' = Some (Number (FloatV 1))"
      "globals s ''df_exact'' = Some (User_function ''df_exact'')"
    and h: "globals s ''arr_h'' = Some (List (map fst recorded_sweep))"
    using notebook_run [of fresh] by blast
  have "0 \<notin> val ` set (map fst recorded_sweep)"
    unfolding sweep_h_values by (simp add: val_def)
  then show ?thesis
    using s h denominators_values [OF g] by (simp add: val_def length_recorded_sweep)
qed

section \<open>The sweep: passes, order, lengths, invariant\<close>

lemma sweep_h_close:
  "list_all2 (\<lambda>h k. \<bar>val h - 10 powi k\<bar> * 2 ^ 53 \<le> 10 powi k) (map fst recorded_sweep)
     sweep_indices"
  unfolding sweep_h_values sweep_indices_def by (simp add: val_def)

lemma sweep_h_decreasing: "sorted_wrt (\<lambda>a b. val b < val a) (map fst recorded_sweep)"
  unfolding sweep_h_values by (simp add: val_def)

text \<open>
  C9. The sweep of Example 4 runs its body exactly twenty times and ends: \<^verbatim>\<open>range(0,-20,-1)\<close>
  is the list \<open>0, -1, ..., -19\<close>, the cell returns from every starting state, prints the
  header and twenty rows, and leaves three lists of length 20. \<^verbatim>\<open>arr_h\<close> holds, in this
  order, the values of \<^verbatim>\<open>10**i\<close> for \<open>i = 0, -1, ..., -19\<close>: the integer 1 and then the floats
  nearest to \<open>10\<^sup>i\<close> (within \<open>2\<^sup>-\<^sup>5\<^sup>3\<close> of it, relatively), strictly decreasing.
\<close>

theorem sweep_runs_twenty_times:
  "py_range 0 (- 20) (- 1) = Inr sweep_indices
   \<and> length sweep_indices = 20
   \<and> (\<exists>s' hs ds es.
         example4_sweep s = Inr s'
       \<and> globals s' ''arr_h'' = Some (List hs)
       \<and> globals s' ''arr_df'' = Some (List ds)
       \<and> globals s' ''arr_err'' = Some (List es)
       \<and> length hs = 20 \<and> length ds = 20 \<and> length es = 20
       \<and> map Inr hs = map (\<lambda>i. py_pow (IntV 10) (IntV i)) sweep_indices
       \<and> list_all2 (\<lambda>h i. \<bar>val h - 10 powi i\<bar> * 2 ^ 53 \<le> 10 powi i) hs sweep_indices
       \<and> sorted_wrt (\<lambda>a b. val b < val a) hs
       \<and> length (printed s') = length (printed s) + 21)"
proof -
  obtain s' where s': "example4_sweep s = Inr s'"
    and p: "printed s' = printed s @ recorded_header # map row_line recorded_sweep"
    and a: "globals s' ''arr_h'' = Some (List (map fst recorded_sweep))"
      "globals s' ''arr_df'' = Some (List (map (fst \<circ> snd) recorded_sweep))"
      "globals s' ''arr_err'' = Some (List (map (snd \<circ> snd) recorded_sweep))"
    using example4_sweep_result [of s] by blast
  have pow: "map Inr (map fst recorded_sweep)
      = map (\<lambda>i. py_pow (IntV 10) (IntV i)) sweep_indices"
    unfolding sweep_indices_def by (rule sweep_rows_pow [OF sweep_rows_recorded])
  have "length (printed s') = length (printed s) + 21"
    using p by (simp add: length_recorded_sweep)
  then show ?thesis
    using s' a pow sweep_h_close sweep_h_decreasing
    by (simp add: range_sweep sweep_indices_def length_recorded_sweep)
qed

text \<open>
  C10. The invariant of the sweep holds after every pass: for every number \<open>n\<close> of passes
  done (all twenty are done for \<open>n \<ge> 20\<close>) and every starting state, the cell reaches a state
  in which \<^verbatim>\<open>arr_h\<close>, \<^verbatim>\<open>arr_df\<close> and \<^verbatim>\<open>arr_err\<close> are lists of the same length \<open>min n 20\<close>
  and \<^verbatim>\<open>arr_err[k]\<close> is \<open>|arr_df[k] - df_exact(x0)| / df_exact(x0)\<close>, computed in binary64,
  at every index \<open>k\<close>. The value \<^verbatim>\<open>df_numeric(x0,h)\<close> recomputed inside \<^verbatim>\<open>df_err\<close> is the stored
  \<^verbatim>\<open>df_val\<close>, the function being deterministic (lemma \<open>sweep_body_run\<close>).
\<close>

theorem sweep_invariant_after_every_pass:
  "\<exists>s'. sweep_after n s = Inr s'
     \<and> sweep_invariant s'
     \<and> globals s' ''x0'' = Some (Number (FloatV 1))
     \<and> globals s' ''arr_df'' = Some (List (map (fst \<circ> snd) (take n recorded_sweep)))
     \<and> globals s' ''arr_err'' = Some (List (map (snd \<circ> snd) (take n recorded_sweep)))"
proof -
  let ?s0 = "s\<lparr>globals := (globals s)
       (''f'' \<mapsto> User_function ''f'',
        ''df_exact'' \<mapsto> User_function ''df_exact'',
        ''df_numeric'' \<mapsto> User_function ''df_numeric'',
        ''x0'' \<mapsto> Number (FloatV 1),
        ''arr_h'' \<mapsto> List [], ''arr_df'' \<mapsto> List [], ''arr_err'' \<mapsto> List []),
     printed := printed s @ [recorded_header]\<rparr>"
  let ?ks = "take n sweep_indices"
  let ?rs = "take n recorded_sweep"
  have rows: "sweep_rows (FloatV 1) ?ks = Inr ?rs"
    unfolding sweep_indices_def by (rule sweep_rows_take [OF sweep_rows_recorded])
  have run: "sweep_after n s = iterate ''i'' ?ks sweep_body ?s0"
    by (simp add: sweep_after_def sweep_setup_run range_sweep sweep_indices_def)
  have "\<exists>s'. iterate ''i'' ?ks sweep_body ?s0 = Inr s'
       \<and> printed s' = printed ?s0 @ map row_line ?rs
       \<and> globals s' ''arr_h'' = Some (List ([] @ map fst ?rs))
       \<and> globals s' ''arr_df'' = Some (List ([] @ map (fst \<circ> snd) ?rs))
       \<and> globals s' ''arr_err'' = Some (List ([] @ map (snd \<circ> snd) ?rs))
       \<and> (\<forall>x. x \<notin> loop_names \<longrightarrow> globals s' x = globals ?s0 x)"
    by (intro iterate_sweep [OF rows]) simp_all
  then obtain s' where s': "iterate ''i'' ?ks sweep_body ?s0 = Inr s'"
    and a: "globals s' ''arr_h'' = Some (List (map fst ?rs))"
      "globals s' ''arr_df'' = Some (List (map (fst \<circ> snd) ?rs))"
      "globals s' ''arr_err'' = Some (List (map (snd \<circ> snd) ?rs))"
    and u: "\<forall>x. x \<notin> loop_names \<longrightarrow> globals s' x = globals ?s0 x"
    by auto
  have x0: "globals s' ''x0'' = Some (Number (FloatV 1))"
    using u by (simp add: loop_names_def)
  have err: "df_err_of (FloatV 1) (map (fst \<circ> snd) ?rs ! k) = Inr (map (snd \<circ> snd) ?rs ! k)"
    if "k < length ?rs" for k
  proof -
    have k: "k < length ?ks"
      using that sweep_rows_length [OF rows] by (simp add: sweep_indices_def length_recorded_sweep)
    obtain h d e where hde: "?rs ! k = (h, d, e)"
      by (cases "?rs ! k") auto
    have "sweep_row (FloatV 1) (?ks ! k) = Inr (h, d, e)"
      using sweep_rows_nth [OF rows k] hde by simp
    then have "df_err_of (FloatV 1) d = Inr e"
      by (rule sweep_row_parts(3))
    then show ?thesis
      using that hde by simp
  qed
  have "sweep_invariant s'"
    unfolding sweep_invariant_def
    using x0 a err by (intro exI [of _ "FloatV 1"] exI [of _ "map fst ?rs"]
        exI [of _ "map (fst \<circ> snd) ?rs"] exI [of _ "map (snd \<circ> snd) ?rs"]) simp
  then show ?thesis
    using run s' x0 a by simp
qed

theorem sweep_invariant_after_every_pass_witness:
  "\<exists>s'. sweep_after 2 fresh = Inr s'
     \<and> sweep_invariant s'
     \<and> globals s' ''arr_df'' =
          Some (List [float_shown_as 2, float_shown_as (1100000000000001 / 10 ^ 15)])
     \<and> globals s' ''arr_err'' =
          Some (List [float_shown_as 1, float_shown_as (10000000000000098 / 10 ^ 17)])
     \<and> (1::nat) < length [float_shown_as 1, float_shown_as (10000000000000098 / 10 ^ 17)]
     \<and> df_err_of (FloatV 1) (float_shown_as (1100000000000001 / 10 ^ 15))
          = Inr (float_shown_as (10000000000000098 / 10 ^ 17))"
proof -
  have t: "take 2 recorded_sweep =
      [(IntV 1, float_shown_as 2, float_shown_as 1),
       (float_shown_as (1 / 10), float_shown_as (1100000000000001 / 10 ^ 15),
        float_shown_as (10000000000000098 / 10 ^ 17))]"
    by (simp add: recorded_sweep_def)
  obtain s' where s': "sweep_after 2 fresh = Inr s'" and inv: "sweep_invariant s'"
    and x0: "globals s' ''x0'' = Some (Number (FloatV 1))"
    and ds: "globals s' ''arr_df'' =
      Some (List [float_shown_as 2, float_shown_as (1100000000000001 / 10 ^ 15)])"
    and es: "globals s' ''arr_err'' =
      Some (List [float_shown_as 1, float_shown_as (10000000000000098 / 10 ^ 17)])"
    using sweep_invariant_after_every_pass [of 2 fresh] unfolding t by auto
  from inv have "\<forall>k < 2. df_err_of (FloatV 1)
      ([float_shown_as 2, float_shown_as (1100000000000001 / 10 ^ 15)] ! k)
      = Inr ([float_shown_as 1, float_shown_as (10000000000000098 / 10 ^ 17)] ! k)"
    unfolding sweep_invariant_def using x0 ds es by auto
  then have "df_err_of (FloatV 1) (float_shown_as (1100000000000001 / 10 ^ 15))
      = Inr (float_shown_as (10000000000000098 / 10 ^ 17))"
    by (auto dest: spec [of _ 1])
  then show ?thesis
    using s' inv ds es by simp
qed

section \<open>The computed roots against the analytic roots\<close>

lemma discriminant_root_bounds:
  "10 ^ 4 - 2 / 10 ^ 12 - 3 / 10 ^ 28 \<le> sqrt (10 ^ 4 * 10 ^ 4 - 4 * (1 / 10 ^ 4) * (1 / 10 ^ 4))"
  "sqrt (10 ^ 4 * 10 ^ 4 - 4 * (1 / 10 ^ 4) * (1 / 10 ^ 4)) \<le> 10 ^ 4 - 2 / 10 ^ 12"
proof -
  show "10 ^ 4 - 2 / 10 ^ 12 - 3 / 10 ^ 28
      \<le> sqrt (10 ^ 4 * 10 ^ 4 - 4 * (1 / 10 ^ 4) * (1 / 10 ^ 4))"
    by (rule real_le_rsqrt) (simp add: power2_eq_square)
  show "sqrt (10 ^ 4 * 10 ^ 4 - 4 * (1 / 10 ^ 4) * (1 / 10 ^ 4)) \<le> 10 ^ 4 - 2 / 10 ^ 12"
    by (rule real_le_lsqrt) (simp_all add: power2_eq_square)
qed

lemma analytic_x1_bounds:
  "- (1 / 10 ^ 8) - 15 / 10 ^ 25 \<le> analytic_x1" "analytic_x1 \<le> - (1 / 10 ^ 8)"
  using discriminant_root_bounds by (simp_all add: analytic_x1_def x1_standard_real_def)

lemma analytic_x2_bounds:
  "- (10 ^ 8) + 1 / 10 ^ 8 \<le> analytic_x2" "analytic_x2 \<le> - (10 ^ 8) + 1 / 10 ^ 8 + 15 / 10 ^ 25"
  using discriminant_root_bounds by (simp_all add: analytic_x2_def x2_standard_real_def)

lemma printed_roots_values:
  "float_shown_as (- (9094947017729282 / 10 ^ 24)) = FloatV (- (625 / 2 ^ 36))"
  "float_shown_as (- 100000000) = FloatV (- 100000000)"
  "float_shown_as (- (1 / 10 ^ 8)) = FloatV (- (3022314549036573 / 2 ^ 78))"
  "float_shown_as (- (1099511627776 / 10 ^ 4)) = FloatV (- (7378697629483821 / 2 ^ 26))"
  by (simp_all add: fp_eval)

lemma standard_x1_off: "\<not> within_tolerance (9 / 100) (FloatV (- (625 / 2 ^ 36))) analytic_x1"
  "within_tolerance (1 / 10) (FloatV (- (625 / 2 ^ 36))) analytic_x1"
  using analytic_x1_bounds
  by (simp_all add: within_tolerance_def val_def of_rat_divide of_rat_power of_rat_minus abs_if)

lemma alternate_x2_off:
  "\<not> within_tolerance (9 / 100) (FloatV (- (7378697629483821 / 2 ^ 26))) analytic_x2"
  "within_tolerance (1 / 10) (FloatV (- (7378697629483821 / 2 ^ 26))) analytic_x2"
  using analytic_x2_bounds
  by (simp_all add: within_tolerance_def val_def of_rat_divide of_rat_power of_rat_minus abs_if)

lemma standard_x2_close: "within_tolerance (1 / 10 ^ 15) (FloatV (- 100000000)) analytic_x2"
  using analytic_x2_bounds
  by (simp_all add: within_tolerance_def val_def of_rat_divide of_rat_power of_rat_minus abs_if)

lemma alternate_x1_close:
  "within_tolerance (1 / 10 ^ 15) (FloatV (- (3022314549036573 / 2 ^ 78))) analytic_x1"
  using analytic_x1_bounds
  by (simp_all add: within_tolerance_def val_def of_rat_divide of_rat_power of_rat_minus abs_if)

lemma example3_after_example2:
  "\<exists>s1 s2. block [example2, example3_standard] fresh = Inr s1
     \<and> example3_alternate s1 = Inr s2
     \<and> globals s1 ''x1'' = Some (Number (FloatV (- (625 / 2 ^ 36))))
     \<and> globals s1 ''x2'' = Some (Number (FloatV (- 100000000)))
     \<and> globals s2 ''x1'' = Some (Number (FloatV (- (3022314549036573 / 2 ^ 78))))
     \<and> globals s2 ''x2'' = Some (Number (FloatV (- (7378697629483821 / 2 ^ 26))))"
  by (simp add: example2_run example3_standard_run example3_alternate_run
      printed_roots_values [simplified])

lemma within_tolerance_mono:
  assumes "within_tolerance tol v r" and "tol \<le> tol'"
  shows "within_tolerance tol' v r"
proof -
  have "tol * \<bar>r\<bar> \<le> tol' * \<bar>r\<bar>"
    using assms(2) by (simp add: mult_right_mono)
  then show ?thesis
    using assms(1) by (simp add: within_tolerance_def)
qed

text \<open>
  C6, as stated, fails. No tolerance is stated for the roots; the notebook has one,
  \<open>10\<^sup>-\<^sup>1\<^sup>2\<close> (\<^verbatim>\<open>eps\<close> of Example 1). The root \<^verbatim>\<open>x1\<close> of the standard form, \<open>-625 / 2\<^sup>3\<^sup>6\<close> (printed
  \<^verbatim>\<open>-9.094947017729282e-09\<close>), is more than 9 percent away from the analytic root
  \<open>-1.0000000000000001 \<times> 10\<^sup>-\<^sup>8\<close>, so the four computed roots do not match the analytic
  roots within the relative tolerance 9 percent, nor within any smaller one.
\<close>

theorem computed_roots_do_not_match:
  "\<not> roots_match (9 / 100)"
proof
  assume "roots_match (9 / 100)"
  then obtain s1 v1 where s1: "block [example2, example3_standard] fresh = Inr s1"
    and v1: "globals s1 ''x1'' = Some (Number v1)"
    and w: "within_tolerance (9 / 100) v1 analytic_x1"
    unfolding roots_match_def by blast
  obtain t1 where t1: "block [example2, example3_standard] fresh = Inr t1"
    and x1: "globals t1 ''x1'' = Some (Number (FloatV (- (625 / 2 ^ 36))))"
    using example3_after_example2 by blast
  have "v1 = FloatV (- (625 / 2 ^ 36))"
    using s1 v1 t1 x1 by simp
  then show False
    using w standard_x1_off(1) by simp
qed

text \<open>
  C6, amended. For \<^verbatim>\<open>a = 1.e-4\<close>, \<^verbatim>\<open>b = 1.e4\<close>, \<^verbatim>\<open>c = 1.e-4\<close> in binary64, each analytic root
  is matched to a relative error below \<open>10\<^sup>-\<^sup>1\<^sup>5\<close> by one of the two forms: \<^verbatim>\<open>x2\<close> by the
  standard form (\<open>-100000000\<close>) and \<^verbatim>\<open>x1\<close> by the alternate form (the float of
  \<^verbatim>\<open>-1e-08\<close>). The other two computed roots, \<^verbatim>\<open>x1\<close> of the standard form and \<^verbatim>\<open>x2\<close> of the
  alternate form (\<open>-7378697629483821 / 2\<^sup>2\<^sup>6\<close>, printed \<^verbatim>\<open>-109951162.7776\<close>), have a relative
  error between 9 and 10 percent. So all four match within 10 percent and not within
  \<open>10\<^sup>-\<^sup>1\<^sup>2\<close>.
\<close>

theorem computed_roots_accuracy:
  "(\<exists>s1 s2. block [example2, example3_standard] fresh = Inr s1
     \<and> example3_alternate s1 = Inr s2
     \<and> globals s1 ''x1'' = Some (Number (FloatV (- (625 / 2 ^ 36))))
     \<and> globals s1 ''x2'' = Some (Number (FloatV (- 100000000)))
     \<and> globals s2 ''x1'' = Some (Number (FloatV (- (3022314549036573 / 2 ^ 78))))
     \<and> globals s2 ''x2'' = Some (Number (FloatV (- (7378697629483821 / 2 ^ 26)))))
   \<and> within_tolerance (1 / 10 ^ 15) (FloatV (- 100000000)) analytic_x2
   \<and> within_tolerance (1 / 10 ^ 15) (FloatV (- (3022314549036573 / 2 ^ 78))) analytic_x1
   \<and> \<not> within_tolerance (9 / 100) (FloatV (- (625 / 2 ^ 36))) analytic_x1
   \<and> within_tolerance (1 / 10) (FloatV (- (625 / 2 ^ 36))) analytic_x1
   \<and> \<not> within_tolerance (9 / 100) (FloatV (- (7378697629483821 / 2 ^ 26))) analytic_x2
   \<and> within_tolerance (1 / 10) (FloatV (- (7378697629483821 / 2 ^ 26))) analytic_x2
   \<and> roots_match (1 / 10)
   \<and> \<not> roots_match (1 / 10 ^ 12)"
proof -
  obtain s1 s2 where r: "block [example2, example3_standard] fresh = Inr s1"
    "example3_alternate s1 = Inr s2"
    "globals s1 ''x1'' = Some (Number (FloatV (- (625 / 2 ^ 36))))"
    "globals s1 ''x2'' = Some (Number (FloatV (- 100000000)))"
    "globals s2 ''x1'' = Some (Number (FloatV (- (3022314549036573 / 2 ^ 78))))"
    "globals s2 ''x2'' = Some (Number (FloatV (- (7378697629483821 / 2 ^ 26))))"
    using example3_after_example2 by blast
  have c: "within_tolerance (1 / 10) (FloatV (- 100000000)) analytic_x2"
    "within_tolerance (1 / 10) (FloatV (- (3022314549036573 / 2 ^ 78))) analytic_x1"
    by (rule within_tolerance_mono [OF standard_x2_close], simp)
      (rule within_tolerance_mono [OF alternate_x1_close], simp)
  have m: "roots_match (1 / 10)"
    unfolding roots_match_def
    using r c standard_x1_off(2) alternate_x2_off(2) by blast
  have n: "\<not> roots_match (1 / 10 ^ 12)"
  proof
    assume "roots_match (1 / 10 ^ 12)"
    then obtain t1 v1 where t1: "block [example2, example3_standard] fresh = Inr t1"
      and v1: "globals t1 ''x1'' = Some (Number v1)"
      and w: "within_tolerance (1 / 10 ^ 12) v1 analytic_x1"
      unfolding roots_match_def by blast
    have "v1 = FloatV (- (625 / 2 ^ 36))"
      using r(1,3) t1 v1 by simp
    then have "within_tolerance (9 / 100) (FloatV (- (625 / 2 ^ 36))) analytic_x1"
      using within_tolerance_mono [OF w, of "9 / 100"] by simp
    then show False
      using standard_x1_off(1) by simp
  qed
  show ?thesis
    using r m n standard_x2_close alternate_x1_close standard_x1_off alternate_x2_off by blast
qed

end
